theory Spec2Isabelle
  imports Complex_Main
begin

section \<open>The request layer of the Datastore client (src/request.ts)\<close>

text \<open>
  The development embeds \<^verbatim>\<open>DatastoreRequest\<close> and the module-level helpers of
  \<^verbatim>\<open>src/request.ts\<close>. JavaScript specifics are written out:
  \<^item> a \<^verbatim>\<open>throw\<close> is the \<open>Inl\<close> branch of a sum (or \<open>Some\<close> of an \<open>error option\<close> for a
    function that only checks);
  \<^item> \<^verbatim>\<open>undefined\<close>/\<^verbatim>\<open>null\<close> is \<open>None\<close>, and every \<^verbatim>\<open>if (x)\<close> of the source is the
    truthiness test of the value's type;
  \<^item> the mutable object \<^verbatim>\<open>this\<close> is passed in and returned;
  \<^item> what the gax client answers is an input: each call of \<^verbatim>\<open>request_\<close> consumes one
    \<open>transport\<close> value, and the requests handed to the gax client are collected in order.
  Isabelle refuses a name that ends in an underscore, so \<^verbatim>\<open>request_\<close>, \<^verbatim>\<open>requests_\<close>,
  \<^verbatim>\<open>prepareGaxRequest_\<close> and \<^verbatim>\<open>prepareEntityObject_\<close> lose theirs, and \<^verbatim>\<open>this.id\<close> is the
  field \<open>this_id\<close> (\<open>id\<close> is the identity function of HOL).
\<close>

subsection \<open>Errors, handles, truthiness\<close>

datatype error = Error string | TypeError

definition transactionExpiredError :: string where
  "transactionExpiredError = ''This transaction has already expired.''"

definition readTimeAndConsistencyError :: string where
  "readTimeAndConsistencyError = ''Read time and read consistency cannot both be specified.''"

text \<open>A transaction handle is \<^verbatim>\<open>string | Uint8Array\<close>; absent is \<open>None\<close>.\<close>

datatype handle = Str string | Bytes "nat list"

text \<open>\<^verbatim>\<open>x ? .. : ..\<close> on a handle: a string is truthy when non-empty, an array object always.\<close>

fun truthy_handle :: "handle option \<Rightarrow> bool" where
  "truthy_handle None = False"
| "truthy_handle (Some (Str s)) = (s \<noteq> [])"
| "truthy_handle (Some (Bytes b)) = True"

text \<open>\<^verbatim>\<open>Buffer.byteLength\<close>; a \<open>string\<close> of HOL is already a list of bytes.\<close>

fun byteLength :: "handle \<Rightarrow> nat" where
  "byteLength (Str s) = length s"
| "byteLength (Bytes b) = length b"

definition truthy_string :: "string option \<Rightarrow> bool" where
  "truthy_string s = (case s of None \<Rightarrow> False | Some v \<Rightarrow> v \<noteq> [])"

definition truthy_number :: "int option \<Rightarrow> bool" where
  "truthy_number n = (case n of None \<Rightarrow> False | Some v \<Rightarrow> v \<noteq> 0)"

text \<open>\<^verbatim>\<open>String.prototype.toLowerCase\<close> on the ASCII letters; other bytes are kept.\<close>

definition lower_char :: "char \<Rightarrow> char" where
  "lower_char c =
     (case map_of (zip ''ABCDEFGHIJKLMNOPQRSTUVWXYZ'' ''abcdefghijklmnopqrstuvwxyz'') c of
        Some d \<Rightarrow> d
      | None \<Rightarrow> c)"

definition toLowerCase :: "string \<Rightarrow> string" where
  "toLowerCase s = map lower_char s"

text \<open>\<^verbatim>\<open>CONSISTENCY_PROTO_CODE[name]\<close>: \<open>None\<close> is \<^verbatim>\<open>undefined\<close>. The table has the two
  entries of the object literal; names a JavaScript object inherits are not in it.\<close>

definition CONSISTENCY_PROTO_CODE :: "string \<Rightarrow> int option" where
  "CONSISTENCY_PROTO_CODE = map_of [(''eventual'', 2), (''strong'', 1)]"

subsection \<open>The request object and the shapes it builds\<close>

datatype TransactionState = NOT_TRANSACTION | NOT_STARTED | IN_PROGRESS | EXPIRED

text \<open>A mutation as \<^verbatim>\<open>delete\<close> builds it: \<^verbatim>\<open>{delete: keyProto}\<close>.\<close>

datatype 'p mutation = Delete 'p

text \<open>\<^verbatim>\<open>TransactionRequestOptions\<close>: \<^verbatim>\<open>{}\<close>, \<^verbatim>\<open>{readOnly: {}}\<close> or
  \<^verbatim>\<open>{readWrite: {previousTransaction: h}}\<close>.\<close>

datatype TransactionRequestOptions =
  TRO_empty | TRO_readOnly | TRO_readWrite "handle option"

record ITimestamp =
  seconds :: "int option"
  nanos :: "int option"

text \<open>\<^verbatim>\<open>SharedQueryOptions.readOptions\<close>; \<open>ro_transaction\<close> and \<open>ro_readTime\<close> are its
  \<^verbatim>\<open>transaction\<close> and \<^verbatim>\<open>readTime\<close>.\<close>

record readOptions =
  readConsistency :: "int option"
  ro_transaction :: "handle option"
  ro_readTime :: "ITimestamp option"
  newTransaction :: "TransactionRequestOptions option"
  consistencyType :: "string option"

definition empty_readOptions :: readOptions where
  "empty_readOptions =
     \<lparr>readConsistency = None, ro_transaction = None, ro_readTime = None,
      newTransaction = None, consistencyType = None\<rparr>"

text \<open>\<^verbatim>\<open>RequestOptions\<close> (it extends \<^verbatim>\<open>SharedQueryOptions\<close>) together with the
  \<^verbatim>\<open>aggregationQuery\<close> of \<^verbatim>\<open>RunAggregationQueryRequest\<close>. \<open>'p\<close> is a key proto, \<open>'q\<close> a
  query proto. \<open>rq_transaction\<close> is the top-level \<^verbatim>\<open>transaction\<close> of a commit or rollback,
  \<open>rq_explainOptions\<close> is \<^verbatim>\<open>explainOptions\<close>, \<open>rq_databaseId\<close> is \<^verbatim>\<open>databaseId\<close>.\<close>

record ('p, 'q) RequestOptions =
  keys :: "'p list option"
  mutations :: "'p mutation list option"
  rq_transaction :: "handle option"
  mode :: "string option"
  query :: "'q option"
  aggregationQuery :: "('q \<times> 'q list) option"
  readOptions :: "readOptions option"
  partitionId :: "string option"
  rq_explainOptions :: "bool option"
  rq_databaseId :: "string option"
  projectId :: "string option"

definition empty_reqOpts :: "('p, 'q) RequestOptions" where
  "empty_reqOpts =
     \<lparr>keys = None, mutations = None, rq_transaction = None, mode = None, query = None,
      aggregationQuery = None, readOptions = None, partitionId = None,
      rq_explainOptions = None, rq_databaseId = None, projectId = None\<rparr>"

text \<open>
  \<^verbatim>\<open>this\<close>: the fields of \<^verbatim>\<open>DatastoreRequest\<close> the methods read or write. \<open>requests\<close> is
  \<^verbatim>\<open>requests_\<close> (each element one pushed \<^verbatim>\<open>reqOpts\<close> object); the class declares it
  without an initialiser, so it is \<open>None\<close> (\<^verbatim>\<open>undefined\<close>) on an object that never
  assigned it an array. \<open>instanceofTransaction\<close> is what \<^verbatim>\<open>isTransaction(this)\<close> answers,
  \<open>readOnly\<close> is \<^verbatim>\<open>transaction.readOnly\<close>, and \<open>databaseId\<close> is
  \<^verbatim>\<open>this.datastore.options.databaseId\<close>.
\<close>

record ('p, 'q) DatastoreRequest =
  this_id :: "handle option"
  requests :: "('p, 'q) RequestOptions list option"
  state :: TransactionState
  instanceofTransaction :: bool
  readOnly :: bool
  databaseId :: "string option"

text \<open>The options of a read (\<^verbatim>\<open>RunQueryOptions\<close>); \<^verbatim>\<open>readTime\<close> is a number of
  milliseconds, taken here as an integer.\<close>

record RunQueryOptions =
  consistency :: "string option"
  readTime :: "int option"
  explainOptions :: "bool option"

text \<open>\<^verbatim>\<open>RunOptions\<close> of \<^verbatim>\<open>getTransactionRequest\<close>; \<open>to_readOnly\<close> and \<open>to_id\<close> are
  \<^verbatim>\<open>transactionOptions.readOnly\<close> and \<^verbatim>\<open>transactionOptions.id\<close>, \<open>run_readOnly\<close> is
  \<^verbatim>\<open>options.readOnly\<close>.\<close>

record TransactionOptions =
  to_readOnly :: bool
  to_id :: "handle option"

record RunOptions =
  transactionOptions :: "TransactionOptions option"
  run_readOnly :: bool
  transactionId :: "handle option"

subsection \<open>The transaction state and the option checks\<close>

text \<open>\<^verbatim>\<open>parseTransactionResponse\<close> reads only \<^verbatim>\<open>resp.transaction\<close>; \<open>None\<close> stands for
  no response and for a response without the field alike.\<close>

definition parseTransactionResponse ::
  "handle option \<Rightarrow> ('p, 'q) DatastoreRequest \<Rightarrow> ('p, 'q) DatastoreRequest" where
  "parseTransactionResponse tx this =
     (case tx of
        None \<Rightarrow> this
      | Some h \<Rightarrow>
          if truthy_handle (Some h) \<and> byteLength h > 0
          then this\<lparr>this_id := Some h, state := IN_PROGRESS\<rparr>
          else this)"

definition checkExpired :: "('p, 'q) DatastoreRequest \<Rightarrow> error option" where
  "checkExpired this =
     (if state this = EXPIRED then Some (Error transactionExpiredError) else None)"

definition throwOnReadTimeAndConsistency :: "RunQueryOptions \<Rightarrow> error option" where
  "throwOnReadTimeAndConsistency options =
     (if truthy_number (readTime options) \<and> truthy_string (consistency options)
      then Some (Error readTimeAndConsistencyError) else None)"

definition throwOnTransactionErrors ::
  "('p, 'q) DatastoreRequest \<Rightarrow> ('p, 'q) RequestOptions \<Rightarrow> error option" where
  "throwOnTransactionErrors request options =
     (let isTransaction = truthy_handle (this_id request) in
      if isTransaction \<or>
         (case readOptions options of None \<Rightarrow> False | Some ro \<Rightarrow> newTransaction ro \<noteq> None)
      then
        if (case readOptions options of
              None \<Rightarrow> False | Some ro \<Rightarrow> truthy_number (readConsistency ro))
        then Some (Error ''Read consistency cannot be specified in a transaction.'')
        else if (case readOptions options of
                   None \<Rightarrow> False | Some ro \<Rightarrow> ro_readTime ro \<noteq> None)
        then Some (Error ''Read time cannot be specified in a transaction.'')
        else None
      else None)"

definition getTransactionRequest ::
  "('p, 'q) DatastoreRequest \<Rightarrow> RunOptions \<Rightarrow> TransactionRequestOptions" where
  "getTransactionRequest transaction options =
     (case transactionOptions options of
        Some topts \<Rightarrow>
          if to_readOnly topts then TRO_readOnly
          else if truthy_handle (to_id topts) then TRO_readWrite (to_id topts)
          else TRO_empty
      | None \<Rightarrow>
          if run_readOnly options \<or> readOnly transaction then TRO_readOnly
          else if truthy_handle (transactionId options) \<or> truthy_handle (this_id transaction)
          then TRO_readWrite
                 (if truthy_handle (transactionId options) then transactionId options
                  else this_id transaction)
          else TRO_empty)"

text \<open>The \<^verbatim>\<open>{}\<close> that \<^verbatim>\<open>getRequestOptions\<close> passes to \<^verbatim>\<open>getTransactionRequest\<close>.\<close>

definition no_RunOptions :: RunOptions where
  "no_RunOptions = \<lparr>transactionOptions = None, run_readOnly = False, transactionId = None\<rparr>"

text \<open>\<^verbatim>\<open>if (sharedQueryOpts.readOptions === undefined) sharedQueryOpts.readOptions = {}\<close>.\<close>

definition ensure_readOptions :: "('p, 'q) RequestOptions \<Rightarrow> readOptions" where
  "ensure_readOptions opts =
     (case readOptions opts of None \<Rightarrow> empty_readOptions | Some ro \<Rightarrow> ro)"

definition getRequestOptions ::
  "('p, 'q) DatastoreRequest \<Rightarrow> RunQueryOptions \<Rightarrow> ('p, 'q) RequestOptions" where
  "getRequestOptions this options =
     (let s0 = empty_reqOpts;
          s1 = (if instanceofTransaction this \<and> state this = NOT_STARTED
                then s0\<lparr>readOptions := Some ((ensure_readOptions s0)
                       \<lparr>newTransaction := Some (getTransactionRequest this no_RunOptions),
                        consistencyType := Some ''newTransaction''\<rparr>)\<rparr>
                else s0);
          s2 = (case consistency options of
                  None \<Rightarrow> s1
                | Some c \<Rightarrow>
                    if c \<noteq> []
                    then s1\<lparr>readOptions := Some ((ensure_readOptions s1)
                           \<lparr>readConsistency := CONSISTENCY_PROTO_CODE (toLowerCase c)\<rparr>)\<rparr>
                    else s1);
          s3 = (case readTime options of
                  None \<Rightarrow> s2
                | Some t \<Rightarrow>
                    if t \<noteq> 0
                    then s2\<lparr>readOptions := Some ((ensure_readOptions s2)
                           \<lparr>ro_readTime := Some \<lparr>seconds = Some (t div 1000), nanos = None\<rparr>\<rparr>)\<rparr>
                    else s2)
      in s3)"

subsection \<open>What the layer consumes from outside\<close>

text \<open>\<^verbatim>\<open>Entities\<close>: one key or an array of keys.\<close>

datatype 'k Entities = Single 'k | Several "'k list"

fun arrify :: "'k Entities \<Rightarrow> 'k list" where
  "arrify (Single k) = [k]"
| "arrify (Several ks) = ks"

fun isArray :: "'k Entities \<Rightarrow> bool" where
  "isArray (Single k) = False"
| "isArray (Several ks) = True"

text \<open>
  Modelled from the spec: the fields of the query specification that pagination reads and
  advances (namespace, start cursor, offset, limit); the \<^verbatim>\<open>Query\<close> class is not in
  \<^verbatim>\<open>src/request.ts\<close>. An absent limit is \<open>None\<close>.
\<close>

record Query =
  namespace :: "string option"
  startVal :: "string option"
  offsetVal :: int
  limitVal :: "int option"

text \<open>Modelled from the spec: the fluent setters \<^verbatim>\<open>start\<close>, \<^verbatim>\<open>offset\<close> and \<^verbatim>\<open>limit\<close> of
  \<^verbatim>\<open>Query\<close>, which store their argument as the start cursor, the offset and the limit.\<close>

definition query_start :: "string option \<Rightarrow> Query \<Rightarrow> Query" where
  "query_start c q = q\<lparr>startVal := c\<rparr>"

definition query_offset :: "int \<Rightarrow> Query \<Rightarrow> Query" where
  "query_offset n q = q\<lparr>offsetVal := n\<rparr>"

definition query_limit :: "int \<Rightarrow> Query \<Rightarrow> Query" where
  "query_limit n q = q\<lparr>limitVal := Some n\<rparr>"

text \<open>
  The functions of the \<^verbatim>\<open>entity\<close> module and of Node that the file calls are parameters:
  \<open>'k\<close> a key, \<open>'p\<close> a key proto, \<open>'r\<close> a value or result on the wire, \<open>'e\<close> a decoded
  entity or value, \<open>'q\<close> a query proto. \<open>formatArray\<close> and \<open>queryToQueryProto\<close> are called
  inside \<^verbatim>\<open>try\<close> blocks, so they may fail; \<open>formatArray\<close> is taken with
  \<^verbatim>\<open>options.wrapNumbers\<close> already applied; \<open>base64\<close> is \<^verbatim>\<open>Buffer.toString('base64')\<close>.
\<close>

record ('k, 'p, 'r, 'e, 'q) externals =
  keyToKeyProto :: "'k \<Rightarrow> 'p"
  keyFromKeyProto :: "'p \<Rightarrow> 'k"
  isKeyComplete :: "'k \<Rightarrow> bool"
  formatArray :: "'r list \<Rightarrow> error + 'e list"
  decodeValueProto :: "'r \<Rightarrow> 'e"
  queryToQueryProto :: "Query \<Rightarrow> error + 'q"
  base64 :: "string \<Rightarrow> string"

text \<open>A response of the service, with the fields the callbacks read; \<open>resp_keys\<close> is the
  \<^verbatim>\<open>keys\<close> of an \<^verbatim>\<open>allocateIds\<close> response.\<close>

record 'r batch =
  moreResults :: string
  endCursor :: "string option"
  entityResults :: "'r list option"
  skippedResults :: int
  aggregationResults :: "(string \<times> 'r) list list"

record ('r, 'p) response =
  transaction :: "handle option"
  found :: "'r list"
  deferred :: "'p list option"
  batch :: "'r batch option"
  resp_keys :: "'p list option"

text \<open>
  What one call of \<^verbatim>\<open>request_\<close> meets: the outcome of \<^verbatim>\<open>datastore.auth.getProjectId\<close>
  and, when the request is then sent, the \<^verbatim>\<open>(err, resp)\<close> the gax client calls back with.
\<close>

record ('r, 'p) transport =
  getProjectId :: "error + string"
  rpc_err :: "error option"
  rpc_resp :: "('r, 'p) response option"

text \<open>\<^verbatim>\<open>RequestConfig\<close>; \<open>method_name\<close> is its \<^verbatim>\<open>method\<close>. The gax call options are not
  modelled.\<close>

record ('p, 'q) RequestConfig =
  client :: string
  method_name :: string
  reqOpts :: "('p, 'q) RequestOptions"

subsection \<open>Sending a request\<close>

text \<open>
  \<^verbatim>\<open>prepareGaxRequest_\<close>: \<open>Inl e\<close> is a synchronous throw, \<open>Inr (Inl e)\<close> is
  \<^verbatim>\<open>callback(err)\<close>, and \<open>Inr (Inr c)\<close> is \<^verbatim>\<open>callback(null, requestFn)\<close> where \<open>c\<close> holds
  the method and the request options bound into \<^verbatim>\<open>requestFn\<close>.
\<close>

definition prepareGaxRequest ::
  "('p, 'q) DatastoreRequest \<Rightarrow> ('p, 'q) RequestConfig \<Rightarrow> error + string \<Rightarrow>
   error + (error + ('p, 'q) RequestConfig)" where
  "prepareGaxRequest this config pid =
     (let isTransaction = truthy_handle (this_id this);
          m = method_name config;
          r0 = reqOpts config;
          r1 = (if m = ''commit''
                then (if isTransaction
                      then r0\<lparr>mode := Some ''TRANSACTIONAL'', rq_transaction := this_id this\<rparr>
                      else r0\<lparr>mode := Some ''NON_TRANSACTIONAL''\<rparr>)
                else r0);
          r2 = (if truthy_string (databaseId this)
                then r1\<lparr>rq_databaseId := databaseId this\<rparr> else r1);
          r3 = (if m = ''rollback'' then r2\<lparr>rq_transaction := this_id this\<rparr> else r2)
      in case throwOnTransactionErrors this r3 of
           Some e \<Rightarrow> Inl e
         | None \<Rightarrow>
            (let r4 = (if isTransaction \<and>
                          (m = ''lookup'' \<or> m = ''runQuery'' \<or> m = ''runAggregationQuery'')
                       then r3\<lparr>readOptions :=
                                 Some ((ensure_readOptions r3)\<lparr>ro_transaction := this_id this\<rparr>)\<rparr>
                       else r3)
             in case pid of
                  Inl err \<Rightarrow> Inr (Inl err)
                | Inr project \<Rightarrow>
                    Inr (Inr (config\<lparr>reqOpts := r4\<lparr>projectId := Some project\<rparr>\<rparr>))))"

text \<open>
  \<^verbatim>\<open>request_\<close>: \<open>Inl e\<close> is a synchronous throw; otherwise the requests handed to the gax
  client (none or one) and the arguments the callback is called with.
\<close>

definition request ::
  "('p, 'q) DatastoreRequest \<Rightarrow> ('p, 'q) RequestConfig \<Rightarrow> ('r, 'p) transport \<Rightarrow>
   error + (('p, 'q) RequestConfig list \<times> error option \<times> ('r, 'p) response option)" where
  "request this config t =
     (case prepareGaxRequest this config (getProjectId t) of
        Inl e \<Rightarrow> Inl e
      | Inr (Inl err) \<Rightarrow> Inr ([], Some err, None)
      | Inr (Inr requestFn) \<Rightarrow> Inr ([requestFn], rpc_err t, rpc_resp t))"

subsection \<open>delete and allocateIds\<close>

text \<open>What a call has done when it returns and its callbacks have run: the request object,
  the requests sent, what the caller's callback received (\<open>None\<close>: not called), and an
  exception raised inside a callback of the gax client, where no handler of the file
  catches it.\<close>

record ('p, 'q, 'c) effect =
  this_after :: "('p, 'q) DatastoreRequest"
  sent :: "('p, 'q) RequestConfig list"
  callback :: "'c option"
  uncaught :: "error option"

text \<open>\<^verbatim>\<open>delete\<close>; \<^verbatim>\<open>this.requests_.push\<close> on an object without \<^verbatim>\<open>requests_\<close> raises a
  \<^verbatim>\<open>TypeError\<close>, which \<^verbatim>\<open>delete\<close> throws.\<close>

definition delete ::
  "('k, 'p, 'r, 'e, 'q) externals \<Rightarrow> ('p, 'q) DatastoreRequest \<Rightarrow> 'k Entities \<Rightarrow>
   ('r, 'p) transport \<Rightarrow>
   error + ('p, 'q, error option \<times> ('r, 'p) response option) effect" where
  "delete ext this ks t =
     (let opts = empty_reqOpts
            \<lparr>mutations := Some (map (\<lambda>key. Delete (keyToKeyProto ext key)) (arrify ks))\<rparr>
      in if truthy_handle (this_id this)
         then (case requests this of
                 None \<Rightarrow> Inl TypeError
               | Some buffered \<Rightarrow>
                   Inr \<lparr>this_after = this\<lparr>requests := Some (buffered @ [opts])\<rparr>,
                        sent = [], callback = None, uncaught = None\<rparr>)
         else (case request this
                      \<lparr>client = ''DatastoreClient'', method_name = ''commit'', reqOpts = opts\<rparr> t of
                 Inl e \<Rightarrow> Inl e
               | Inr (rpcs, cb) \<Rightarrow>
                   Inr \<lparr>this_after = this, sent = rpcs, callback = Some cb, uncaught = None\<rparr>))"

text \<open>\<^verbatim>\<open>allocateIds\<close>; the callback receives \<^verbatim>\<open>(err, keys, resp)\<close>, and \<^verbatim>\<open>arrify\<close> of an
  absent \<^verbatim>\<open>resp.keys\<close> is the empty array. The number of allocations is a natural number.\<close>

definition allocateIds ::
  "('k, 'p, 'r, 'e, 'q) externals \<Rightarrow> ('p, 'q) DatastoreRequest \<Rightarrow> 'k \<Rightarrow> nat \<Rightarrow>
   ('r, 'p) transport \<Rightarrow>
   error + ('p, 'q, error option \<times> 'k list option \<times> ('r, 'p) response option) effect" where
  "allocateIds ext this key allocations t =
     (if isKeyComplete ext key then Inl (Error ''An incomplete key should be provided.'')
      else
        (case request this
                \<lparr>client = ''DatastoreClient'', method_name = ''allocateIds'',
                 reqOpts = empty_reqOpts
                   \<lparr>keys := Some (replicate allocations (keyToKeyProto ext key))\<rparr>\<rparr> t of
           Inl e \<Rightarrow> Inl e
         | Inr (rpcs, err, resp) \<Rightarrow>
             (case err of
                Some e \<Rightarrow>
                  Inr \<lparr>this_after = this, sent = rpcs, callback = Some (Some e, None, resp),
                       uncaught = None\<rparr>
              | None \<Rightarrow>
                 (case resp of
                    None \<Rightarrow>
                      Inr \<lparr>this_after = this, sent = rpcs, callback = None,
                           uncaught = Some TypeError\<rparr>
                  | Some rs \<Rightarrow>
                      Inr \<lparr>this_after = this, sent = rpcs,
                           callback = Some
                             (None,
                              Some (map (keyFromKeyProto ext)
                                      (case resp_keys rs of None \<Rightarrow> [] | Some l \<Rightarrow> l)),
                              resp),
                           uncaught = None\<rparr>))))"

subsection \<open>Streams\<close>

text \<open>
  A stream as its consumer sees it. \<open>Waiting\<close>: a request is under way and nothing has
  come back; \<open>Ended\<close>: \<^verbatim>\<open>stream.push(null)\<close>; \<open>Destroyed e\<close>: \<^verbatim>\<open>stream.destroy(e)\<close>;
  \<open>Closed\<close>: the consumer had ended the stream (\<^verbatim>\<open>split\<close> resolved to true), so the
  callback returned without a further step; \<open>Uncaught e\<close>: an exception escaped a callback.
\<close>

datatype stream_status = Waiting | Ended | Destroyed error | Closed | Uncaught error

text \<open>The \<^verbatim>\<open>info\<close> event of a query stream. The explain metrics that
  \<^verbatim>\<open>getInfoFromStats\<close> decodes are left out of the event.\<close>

record RunQueryInfo =
  info_moreResults :: "string option"
  info_endCursor :: "string option"

record ('p, 'q, 'e) stream_run =
  run_this :: "('p, 'q) DatastoreRequest"
  run_sent :: "('p, 'q) RequestConfig list"
  emitted :: "'e list"
  infos :: "RunQueryInfo list"
  status :: stream_status

definition new_stream :: "('p, 'q) DatastoreRequest \<Rightarrow> ('p, 'q, 'e) stream_run" where
  "new_stream this =
     \<lparr>run_this = this, run_sent = [], emitted = [], infos = [], status = Waiting\<rparr>"

text \<open>
  \<^verbatim>\<open>split(entities, stream)\<close> of the package split-array-stream is a parameter: from the
  entities of a round and what the stream has emitted so far, what it has emitted
  afterwards and whether the consumer has ended it. \<open>consume_all\<close> is a consumer that reads
  to the end, as \<^verbatim>\<open>concat\<close> does.
\<close>

type_synonym 'e split = "'e list \<Rightarrow> 'e list \<Rightarrow> 'e list \<times> bool"

definition consume_all :: "'e split" where
  "consume_all entities emitted_before = (emitted_before @ entities, False)"

definition resp_transaction :: "('r, 'p) response option \<Rightarrow> handle option" where
  "resp_transaction resp = (case resp of None \<Rightarrow> None | Some r \<Rightarrow> transaction r)"

subsection \<open>createReadStream and get\<close>

text \<open>
  \<^verbatim>\<open>makeRequest\<close> of \<^verbatim>\<open>createReadStream\<close> with the callback it passes to \<^verbatim>\<open>request_\<close>.
  The list holds what the successive calls of \<^verbatim>\<open>request_\<close> meet; when it is used up the
  stream is left \<open>Waiting\<close>.
\<close>

fun lookup_rounds ::
  "('k, 'p, 'r, 'e, 'q) externals \<Rightarrow> 'e split \<Rightarrow> ('p, 'q) RequestOptions \<Rightarrow>
   ('r, 'p) transport list \<Rightarrow> 'p list \<Rightarrow> ('p, 'q, 'e) stream_run \<Rightarrow> ('p, 'q, 'e) stream_run" where
  "lookup_rounds ext sp opts [] ks run = run\<lparr>status := Waiting\<rparr>"
| "lookup_rounds ext sp opts (t # ts) ks run =
     (case request (run_this run)
             \<lparr>client = ''DatastoreClient'', method_name = ''lookup'',
              reqOpts = opts\<lparr>keys := Some ks\<rparr>\<rparr> t of
        Inl e \<Rightarrow> run\<lparr>status := Uncaught e\<rparr>
      | Inr (rpcs, err, resp) \<Rightarrow>
         (let run1 = run\<lparr>run_this := parseTransactionResponse (resp_transaction resp) (run_this run),
                         run_sent := run_sent run @ rpcs\<rparr>
          in case err of
               Some e \<Rightarrow> run1\<lparr>status := Destroyed e\<rparr>
             | None \<Rightarrow>
                (case resp of
                   None \<Rightarrow> run1\<lparr>status := Destroyed TypeError\<rparr>
                 | Some r \<Rightarrow>
                    (case formatArray ext (found r) of
                       Inl e \<Rightarrow> run1\<lparr>status := Destroyed e\<rparr>
                     | Inr entities \<Rightarrow>
                        (let nextKeys =
                               map (keyToKeyProto ext)
                                 (map (keyFromKeyProto ext)
                                    (case deferred r of None \<Rightarrow> [] | Some d \<Rightarrow> d));
                             run2 = run1\<lparr>emitted := fst (sp entities (emitted run1))\<rparr>
                         in if snd (sp entities (emitted run1)) then run2\<lparr>status := Closed\<rparr>
                            else if length nextKeys > 0
                            then lookup_rounds ext sp opts ts nextKeys run2
                            else run2\<lparr>status := Ended\<rparr>)))))"

text \<open>\<^verbatim>\<open>createReadStream\<close>: \<open>Inl e\<close> is the synchronous throw; \<open>Inr\<close> is the stream, read by
  a consumer \<open>sp\<close> while the service answers with \<open>ts\<close>.\<close>

definition createReadStream ::
  "('k, 'p, 'r, 'e, 'q) externals \<Rightarrow> 'e split \<Rightarrow> ('p, 'q) DatastoreRequest \<Rightarrow> 'k Entities \<Rightarrow>
   RunQueryOptions \<Rightarrow> ('r, 'p) transport list \<Rightarrow> error + ('p, 'q, 'e) stream_run" where
  "createReadStream ext sp this ks options ts =
     (let kps = map (keyToKeyProto ext) (arrify ks)
      in if length kps = 0 then Inl (Error ''At least one Key object is required.'')
         else
          (case checkExpired this of
             Some e \<Rightarrow> Inl e
           | None \<Rightarrow>
              (case throwOnReadTimeAndConsistency options of
                 Some e \<Rightarrow> Inl e
               | None \<Rightarrow>
                  (let opts = getRequestOptions this options
                   in case throwOnTransactionErrors this opts of
                        Some e \<Rightarrow> Inl e
                      | None \<Rightarrow> Inr (lookup_rounds ext sp opts ts kps (new_stream this))))))"

text \<open>The second argument of the callback of \<^verbatim>\<open>get\<close>: \<^verbatim>\<open>undefined\<close>, one entity, or an
  array of entities.\<close>

datatype 'e get_result = Undefined | Entity 'e | EntityArray "'e list"

text \<open>\<^verbatim>\<open>results[0]\<close>.\<close>

fun first_result :: "'e list \<Rightarrow> 'e get_result" where
  "first_result [] = Undefined"
| "first_result (e # es) = Entity e"

text \<open>
  \<^verbatim>\<open>get\<close> with a callback. The stream is piped into \<^verbatim>\<open>concat\<close>, whose function runs when
  the stream has ended; the \<^verbatim>\<open>error\<close> event calls the callback with the error alone. \<open>Inl\<close>
  would be a synchronous throw of \<^verbatim>\<open>get\<close> itself.
\<close>

definition get ::
  "('k, 'p, 'r, 'e, 'q) externals \<Rightarrow> ('p, 'q) DatastoreRequest \<Rightarrow> 'k Entities \<Rightarrow>
   RunQueryOptions \<Rightarrow> ('r, 'p) transport list \<Rightarrow>
   error + ('p, 'q, error option \<times> 'e get_result) effect" where
  "get ext this ks options ts =
     (case createReadStream ext consume_all this ks options ts of
        Inl err \<Rightarrow>
          Inr \<lparr>this_after = this, sent = [], callback = Some (Some err, Undefined),
               uncaught = None\<rparr>
      | Inr run \<Rightarrow>
          Inr \<lparr>this_after = run_this run, sent = run_sent run,
               callback =
                 (case status run of
                    Ended \<Rightarrow>
                      (let isSingleLookup = \<not> isArray ks
                       in Some (None, if isSingleLookup then first_result (emitted run)
                                      else EntityArray (emitted run)))
                  | Destroyed e \<Rightarrow> Some (Some e, Undefined)
                  | _ \<Rightarrow> None),
               uncaught = (case status run of Uncaught e \<Rightarrow> Some e | _ \<Rightarrow> None)\<rparr>)"

subsection \<open>runQueryStream, runQuery and runAggregationQuery\<close>

definition getQueryOptions ::
  "('p, 'q) DatastoreRequest \<Rightarrow> Query \<Rightarrow> RunQueryOptions \<Rightarrow> ('p, 'q) RequestOptions" where
  "getQueryOptions this q options =
     (let s0 = getRequestOptions this options;
          s1 = (if explainOptions options \<noteq> None
                then s0\<lparr>rq_explainOptions := explainOptions options\<rparr> else s0);
          s2 = (if truthy_string (namespace q) then s1\<lparr>partitionId := namespace q\<rparr> else s1)
      in s2)"

text \<open>What a round decides: the stream is settled, or \<^verbatim>\<open>makeRequest(query)\<close> is called
  again with the advanced query.\<close>

datatype 'a step = Stop 'a | Again Query 'a

text \<open>
  \<^verbatim>\<open>onResultSet(err, resp)\<close> of \<^verbatim>\<open>runQueryStream\<close>, for the traversal query \<open>q\<close>.
  Reading \<^verbatim>\<open>resp.batch\<close> of an absent response, or \<^verbatim>\<open>entityResults.length\<close> of an absent
  array, raises a \<^verbatim>\<open>TypeError\<close> that nothing catches.
\<close>

definition onResultSet ::
  "('k, 'p, 'r, 'e, 'q) externals \<Rightarrow> 'e split \<Rightarrow> Query \<Rightarrow> error option \<Rightarrow>
   ('r, 'p) response option \<Rightarrow> ('p, 'q, 'e) stream_run \<Rightarrow> ('p, 'q, 'e) stream_run step" where
  "onResultSet ext sp q err resp run =
     (let run1 = run\<lparr>run_this := parseTransactionResponse (resp_transaction resp) (run_this run)\<rparr>
      in case err of
           Some e \<Rightarrow> Stop (run1\<lparr>status := Destroyed e\<rparr>)
         | None \<Rightarrow>
            (case resp of
               None \<Rightarrow> Stop (run1\<lparr>status := Uncaught TypeError\<rparr>)
             | Some r \<Rightarrow>
                (case batch r of
                   None \<Rightarrow>
                     Stop (run1\<lparr>infos := infos run1 @
                                   [\<lparr>info_moreResults = None, info_endCursor = None\<rparr>],
                                 status := Ended\<rparr>)
                 | Some b \<Rightarrow>
                    (let info = \<lparr>info_moreResults = Some (moreResults b),
                                 info_endCursor = map_option (base64 ext) (endCursor b)\<rparr>
                     in case (case entityResults b of
                                None \<Rightarrow> Inr []
                              | Some rs \<Rightarrow> formatArray ext rs) of
                          Inl e \<Rightarrow> Stop (run1\<lparr>status := Destroyed e\<rparr>)
                        | Inr entities \<Rightarrow>
                           (let run2 = run1\<lparr>emitted := fst (sp entities (emitted run1))\<rparr>
                            in if snd (sp entities (emitted run1))
                               then Stop (run2\<lparr>status := Closed\<rparr>)
                               else if moreResults b \<noteq> ''NOT_FINISHED''
                               then Stop (run2\<lparr>infos := infos run2 @ [info], status := Ended\<rparr>)
                               else
                                (let offset = (if offsetVal q = - 1 then 0 else offsetVal q);
                                     q1 = query_offset (offset - skippedResults b)
                                            (query_start (info_endCursor info) q)
                                 in case limitVal q1 of
                                      None \<Rightarrow> Again q1 run2
                                    | Some limit \<Rightarrow>
                                       if limit \<noteq> 0 \<and> limit > - 1
                                       then (case entityResults b of
                                               None \<Rightarrow>
                                                 Stop (run2\<lparr>status := Uncaught TypeError\<rparr>)
                                             | Some rs \<Rightarrow>
                                                 Again
                                                   (query_limit (limit - int (length rs)) q1)
                                                   run2)
                                       else Again q1 run2))))))"

text \<open>
  \<^verbatim>\<open>makeRequest(query)\<close> of \<^verbatim>\<open>runQueryStream\<close>. A query that cannot be turned into a
  proto goes to \<^verbatim>\<open>onResultSet\<close> as its error, without \<^verbatim>\<open>request_\<close> being called.
\<close>

fun query_rounds ::
  "('k, 'p, 'r, 'e, 'q) externals \<Rightarrow> 'e split \<Rightarrow> ('p, 'q) RequestOptions \<Rightarrow>
   ('r, 'p) transport list \<Rightarrow> Query \<Rightarrow> ('p, 'q, 'e) stream_run \<Rightarrow> ('p, 'q, 'e) stream_run" where
  "query_rounds ext sp opts ts q run =
     (case queryToQueryProto ext q of
        Inl e \<Rightarrow>
          (case onResultSet ext sp q (Some e) None run of Stop r \<Rightarrow> r | Again q' r \<Rightarrow> r)
      | Inr queryProto \<Rightarrow>
         (case ts of
            [] \<Rightarrow> run\<lparr>status := Waiting\<rparr>
          | t # ts' \<Rightarrow>
             (case request (run_this run)
                     \<lparr>client = ''DatastoreClient'', method_name = ''runQuery'',
                      reqOpts = opts\<lparr>query := Some queryProto\<rparr>\<rparr> t of
                Inl e \<Rightarrow> run\<lparr>status := Uncaught e\<rparr>
              | Inr (rpcs, err, resp) \<Rightarrow>
                 (case onResultSet ext sp q err resp (run\<lparr>run_sent := run_sent run @ rpcs\<rparr>) of
                    Stop r \<Rightarrow> r
                  | Again q' r \<Rightarrow> query_rounds ext sp opts ts' q' r))))"

definition runQueryStream ::
  "('k, 'p, 'r, 'e, 'q) externals \<Rightarrow> 'e split \<Rightarrow> ('p, 'q) DatastoreRequest \<Rightarrow> Query \<Rightarrow>
   RunQueryOptions \<Rightarrow> ('r, 'p) transport list \<Rightarrow> error + ('p, 'q, 'e) stream_run" where
  "runQueryStream ext sp this q options ts =
     (case checkExpired this of
        Some e \<Rightarrow> Inl e
      | None \<Rightarrow>
         (case throwOnReadTimeAndConsistency options of
            Some e \<Rightarrow> Inl e
          | None \<Rightarrow>
             (let sharedQueryOpts = getQueryOptions this q options
              in case throwOnTransactionErrors this sharedQueryOpts of
                   Some e \<Rightarrow> Inl e
                 | None \<Rightarrow> Inr (query_rounds ext sp sharedQueryOpts ts q (new_stream this)))))"

text \<open>\<^verbatim>\<open>runQuery\<close> with a callback, which receives \<^verbatim>\<open>(err, entities, info)\<close>; \<open>info\<close> is
  what the last \<^verbatim>\<open>info\<close> event carried.\<close>

definition last_info :: "RunQueryInfo list \<Rightarrow> RunQueryInfo option" where
  "last_info l = (if l = [] then None else Some (last l))"

definition runQuery ::
  "('k, 'p, 'r, 'e, 'q) externals \<Rightarrow> ('p, 'q) DatastoreRequest \<Rightarrow> Query \<Rightarrow>
   RunQueryOptions \<Rightarrow> ('r, 'p) transport list \<Rightarrow>
   error + ('p, 'q, error option \<times> 'e list option \<times> RunQueryInfo option) effect" where
  "runQuery ext this q options ts =
     (case runQueryStream ext consume_all this q options ts of
        Inl err \<Rightarrow>
          Inr \<lparr>this_after = this, sent = [], callback = Some (Some err, None, None),
               uncaught = None\<rparr>
      | Inr run \<Rightarrow>
          Inr \<lparr>this_after = run_this run, sent = run_sent run,
               callback =
                 (case status run of
                    Ended \<Rightarrow> Some (None, Some (emitted run), last_info (infos run))
                  | Destroyed e \<Rightarrow> Some (Some e, None, None)
                  | _ \<Rightarrow> None),
               uncaught = (case status run of Uncaught e \<Rightarrow> Some e | _ \<Rightarrow> None)\<rparr>)"

text \<open>An \<^verbatim>\<open>AggregateQuery\<close>: its nested query and what its \<^verbatim>\<open>toProto()\<close> returns.\<close>

record 'q AggregateQuery =
  aq_query :: Query
  aggregations :: "'q list"

text \<open>
  \<^verbatim>\<open>runAggregationQuery\<close> with a callback, which receives \<^verbatim>\<open>(err, results, info)\<close>; a
  result is the list of the named properties of one aggregation result, decoded.
\<close>

definition runAggregationQuery ::
  "('k, 'p, 'r, 'e, 'q) externals \<Rightarrow> ('p, 'q) DatastoreRequest \<Rightarrow> 'q AggregateQuery \<Rightarrow>
   RunQueryOptions \<Rightarrow> ('r, 'p) transport \<Rightarrow>
   error + ('p, 'q, error option \<times> (string \<times> 'e) list list option \<times> RunQueryInfo option) effect"
  where
  "runAggregationQuery ext this aq options t =
     (if state this = EXPIRED
      then Inr \<lparr>this_after = this, sent = [],
                callback = Some (Some (Error transactionExpiredError), None, None),
                uncaught = None\<rparr>
      else if truthy_number (readTime options) \<and> truthy_string (consistency options)
      then Inr \<lparr>this_after = this, sent = [],
                callback = Some (Some (Error readTimeAndConsistencyError), None, None),
                uncaught = None\<rparr>
      else
       (case queryToQueryProto ext (aq_query aq) of
          Inl e \<Rightarrow>
            Inr \<lparr>this_after = this, sent = [], callback = Some (Some e, None, None),
                 uncaught = None\<rparr>
        | Inr queryProto \<Rightarrow>
           (let sharedQueryOpts = getQueryOptions this (aq_query aq) options
            in case throwOnTransactionErrors this sharedQueryOpts of
                 Some e \<Rightarrow>
                   Inr \<lparr>this_after = this, sent = [], callback = Some (Some e, None, None),
                        uncaught = None\<rparr>
               | None \<Rightarrow>
                  (case request this
                          \<lparr>client = ''DatastoreClient'', method_name = ''runAggregationQuery'',
                           reqOpts = sharedQueryOpts
                             \<lparr>aggregationQuery := Some (queryProto, aggregations aq)\<rparr>\<rparr> t of
                     Inl e \<Rightarrow> Inl e
                   | Inr (rpcs, err, res) \<Rightarrow>
                       Inr \<lparr>this_after = parseTransactionResponse (resp_transaction res) this,
                            sent = rpcs,
                            callback = Some
                              (err,
                               Some (case res of
                                       None \<Rightarrow> []
                                     | Some r \<Rightarrow>
                                        (case batch r of
                                           None \<Rightarrow> []
                                         | Some b \<Rightarrow>
                                             map (map (\<lambda>(name, v). (name, decodeValueProto ext v)))
                                               (aggregationResults b))),
                               Some \<lparr>info_moreResults = None, info_endCursor = None\<rparr>),
                            uncaught = None\<rparr>))))"

subsection \<open>merge\<close>

text \<open>
  The properties of an entity are a map from names. \<open>assign\<close> is
  \<^verbatim>\<open>Object.assign({}, data, obj.data)\<close>: an absent source adds nothing, and the later
  source wins.
\<close>

type_synonym 'v props = "string \<rightharpoonup> 'v"

definition assign :: "'v props option \<Rightarrow> 'v props option \<Rightarrow> 'v props" where
  "assign fetched given =
     (case fetched of None \<Rightarrow> Map.empty | Some m \<Rightarrow> m) ++
     (case given of None \<Rightarrow> Map.empty | Some m \<Rightarrow> m)"

text \<open>\<^verbatim>\<open>PrepareEntityObjectResponse\<close>, with the fields \<^verbatim>\<open>merge\<close> touches: \<^verbatim>\<open>key\<close>,
  \<^verbatim>\<open>data\<close> and \<^verbatim>\<open>method\<close>.\<close>

record ('k, 'v) PrepareEntityObjectResponse =
  obj_key :: "'k option"
  obj_data :: "'v props option"
  obj_method :: "string option"

text \<open>What a caller passes: an object in the \<^verbatim>\<open>{key, data}\<close> format, or an entity object
  that carries its key under \<^verbatim>\<open>entity.KEY_SYMBOL\<close>.\<close>

datatype ('k, 'v) user_entity =
  Formatted "('k, 'v) PrepareEntityObjectResponse"
| Keyed 'k "'v props"

fun prepareEntityObject :: "('k, 'v) user_entity \<Rightarrow> ('k, 'v) PrepareEntityObjectResponse" where
  "prepareEntityObject (Keyed k entityObject) =
     \<lparr>obj_key = Some k, obj_data = Some entityObject, obj_method = None\<rparr>"
| "prepareEntityObject (Formatted entityObject) = entityObject"

text \<open>
  The \<^verbatim>\<open>Transaction\<close> that \<^verbatim>\<open>merge\<close> opens is outside the file; how its methods settle
  is a parameter: the error \<^verbatim>\<open>run\<close> passes to its callback, what \<^verbatim>\<open>get\<close> of a key
  resolves to or rejects with, what \<^verbatim>\<open>commit\<close> resolves to or rejects with, and the error
  \<^verbatim>\<open>rollback\<close> rejects with.
\<close>

record ('k, 'v, 'c) transaction_behaviour =
  run_result :: "error option"
  get_result :: "'k option \<Rightarrow> error + 'v props option"
  commit_result :: "error + 'c"
  rollback_result :: "error option"

datatype ('k, 'v) transaction_call =
  Run | Get "'k option" | Save "('k, 'v) PrepareEntityObjectResponse" | Commit | Rollback

text \<open>What \<^verbatim>\<open>merge\<close> has done: the calls on the transaction, what the callback received,
  and the error of a rollback that an empty \<^verbatim>\<open>catch\<close> block discarded.\<close>

record ('k, 'v, 'c) merge_effect =
  calls :: "('k, 'v) transaction_call list"
  merge_callback :: "(error option \<times> 'c option) option"
  swallowed :: "error option"

text \<open>The body of one \<^verbatim>\<open>async\<close> function after its \<^verbatim>\<open>await transaction.get\<close>.\<close>

definition upsert_with ::
  "('k, 'v) PrepareEntityObjectResponse \<Rightarrow> 'v props option \<Rightarrow>
   ('k, 'v) PrepareEntityObjectResponse" where
  "upsert_with obj fetched =
     obj\<lparr>obj_method := Some ''upsert'', obj_data := Some (assign fetched (obj_data obj))\<rparr>"

text \<open>
  \<^verbatim>\<open>Promise.all\<close> over the fetches, which are taken to settle in the order of the
  entities: the saves made before the first rejection, that rejection if there is one, and
  the saves the remaining functions make afterwards.
\<close>

fun settle ::
  "(('k, 'v) PrepareEntityObjectResponse \<times> (error + 'v props option)) list \<Rightarrow>
   ('k, 'v) transaction_call list \<times> error option \<times> ('k, 'v) transaction_call list" where
  "settle [] = ([], None, [])"
| "settle ((obj, Inr fetched) # rest) =
     (case settle rest of
        (saved, rejection, afterwards) \<Rightarrow>
          (Save (upsert_with obj fetched) # saved, rejection, afterwards))"
| "settle ((obj, Inl e) # rest) =
     ([], Some e,
      concat (map (\<lambda>(ob, res). case res of Inl e' \<Rightarrow> [] | Inr d \<Rightarrow> [Save (upsert_with ob d)])
                rest))"

definition merge ::
  "('k, 'v, 'c) transaction_behaviour \<Rightarrow> ('k, 'v) user_entity Entities \<Rightarrow>
   ('k, 'v, 'c) merge_effect" where
  "merge tx entities =
     (case run_result tx of
        Some err \<Rightarrow>
          \<lparr>calls = [Run, Rollback], merge_callback = Some (Some err, None),
           swallowed = rollback_result tx\<rparr>
      | None \<Rightarrow>
         (let objs = map prepareEntityObject (arrify entities);
              gets = map (\<lambda>obj. Get (obj_key obj)) objs
          in case settle (map (\<lambda>obj. (obj, get_result tx (obj_key obj))) objs) of
               (saved, Some err, afterwards) \<Rightarrow>
                 \<lparr>calls = [Run] @ gets @ saved @ [Rollback] @ afterwards,
                  merge_callback = Some (Some err, None),
                  swallowed = rollback_result tx\<rparr>
             | (saved, None, afterwards) \<Rightarrow>
                (case commit_result tx of
                   Inr response \<Rightarrow>
                     \<lparr>calls = [Run] @ gets @ saved @ [Commit],
                      merge_callback = Some (None, Some response), swallowed = None\<rparr>
                 | Inl err \<Rightarrow>
                     \<lparr>calls = [Run] @ gets @ saved @ [Commit, Rollback],
                      merge_callback = Some (Some err, None),
                      swallowed = rollback_result tx\<rparr>)))"

subsection \<open>Lookup pagination as the specification words it\<close>

text \<open>
  The deferred keys of a response (\<^verbatim>\<open>resp.deferred || []\<close>), and a call of \<^verbatim>\<open>request_\<close> on
  which the project id resolves and the gax client answers with a response and no error.
\<close>

definition deferred_keys_of :: "('r, 'p) response \<Rightarrow> 'p list" where
  "deferred_keys_of r = (case deferred r of None \<Rightarrow> [] | Some d \<Rightarrow> d)"

definition answers :: "string \<Rightarrow> ('r, 'p) response \<Rightarrow> ('r, 'p) transport" where
  "answers project r = \<lparr>getProjectId = Inr project, rpc_err = None, rpc_resp = Some r\<rparr>"


subsection \<open>Concrete inputs of the worked examples\<close>

text \<open>Keys, key protos, results and entities are numbers here, the codecs are the identity,
  and a key is complete when it is positive. A request object in a state other than
  \<open>NOT_TRANSACTION\<close> is a transaction, with an empty list of buffered requests; one in
  \<open>NOT_TRANSACTION\<close> is not, and has no such list.\<close>

definition example_ext :: "(nat, nat, nat, nat, Query) externals" where
  "example_ext =
     \<lparr>keyToKeyProto = (\<lambda>k. k), keyFromKeyProto = (\<lambda>p. p), isKeyComplete = (\<lambda>k. 0 < k),
      formatArray = Inr, decodeValueProto = (\<lambda>r. r), queryToQueryProto = Inr,
      base64 = (\<lambda>s. s)\<rparr>"

definition example_this :: "TransactionState \<Rightarrow> handle option \<Rightarrow> (nat, Query) DatastoreRequest" where
  "example_this s h =
     \<lparr>this_id = h, requests = (if s = NOT_TRANSACTION then None else Some []),
      state = s, instanceofTransaction = (s \<noteq> NOT_TRANSACTION),
      readOnly = False, databaseId = None\<rparr>"

definition example_response :: "(nat, nat) response" where
  "example_response =
     \<lparr>transaction = None, found = [], deferred = None, batch = None, resp_keys = None\<rparr>"

definition example_found :: "nat list \<Rightarrow> nat list \<Rightarrow> (nat, nat) response" where
  "example_found fs ds = example_response\<lparr>found := fs, deferred := Some ds\<rparr>"

definition example_batch :: "string \<Rightarrow> string \<Rightarrow> nat list \<Rightarrow> int \<Rightarrow> (nat, nat) response" where
  "example_batch status_code cursor results skipped =
     example_response\<lparr>batch := Some
       \<lparr>moreResults = status_code, endCursor = Some cursor, entityResults = Some results,
        skippedResults = skipped, aggregationResults = []\<rparr>\<rparr>"

definition answer :: "(nat, nat) response \<Rightarrow> (nat, nat) transport" where
  "answer r = answers ''project'' r"

definition example_options :: "string option \<Rightarrow> int option \<Rightarrow> RunQueryOptions" where
  "example_options c t = \<lparr>consistency = c, readTime = t, explainOptions = None\<rparr>"

definition example_query :: "int \<Rightarrow> int option \<Rightarrow> string option \<Rightarrow> Query" where
  "example_query off lmt cursor =
     \<lparr>namespace = None, startVal = cursor, offsetVal = off, limitVal = lmt\<rparr>"

text \<open>A transaction on which the fetch of key 2 and the rollback both fail.\<close>

definition example_transaction :: "(nat, nat, unit) transaction_behaviour" where
  "example_transaction =
     \<lparr>run_result = None,
      get_result = (\<lambda>k. if k = Some 2 then Inl (Error ''fetch failed'') else Inr None),
      commit_result = Inr (),
      rollback_result = Some (Error ''rollback failed'')\<rparr>"

section \<open>Properties\<close>

subsection \<open>Unfolding rules and shared lemmas\<close>

lemmas fixture_defs = example_ext_def example_this_def example_response_def answer_def
  answers_def example_options_def

lemmas check_defs = checkExpired_def throwOnReadTimeAndConsistency_def
  throwOnTransactionErrors_def truthy_string_def truthy_number_def
  transactionExpiredError_def readTimeAndConsistencyError_def

lemmas options_defs = getRequestOptions_def getQueryOptions_def ensure_readOptions_def
  empty_readOptions_def empty_reqOpts_def getTransactionRequest_def no_RunOptions_def
  CONSISTENCY_PROTO_CODE_def toLowerCase_def lower_char_def

lemmas request_defs = request_def prepareGaxRequest_def

lemma parse_state:
  "state (parseTransactionResponse tx this) =
     (if (case tx of None \<Rightarrow> False | Some h \<Rightarrow> 0 < byteLength h) then IN_PROGRESS
      else state this)"
  by (cases tx; cases "the tx"; auto simp: parseTransactionResponse_def)

lemma parse_unchanged:
  "\<not> (case tx of None \<Rightarrow> False | Some h \<Rightarrow> 0 < byteLength h) \<Longrightarrow>
   parseTransactionResponse tx this = this"
  by (cases tx; cases "the tx"; auto simp: parseTransactionResponse_def)

lemma lookup_rounds_state:
  "state (run_this (lookup_rounds ext sp opts ts ks run)) \<in> {state (run_this run), IN_PROGRESS}"
proof (induction ts arbitrary: ks run)
  case Nil
  show ?case by simp
next
  case (Cons t ts)
  have step:
    "state (run_this (lookup_rounds ext sp opts ts ks'
        (run\<lparr>run_this := parseTransactionResponse tx (run_this run), run_sent := s', emitted := em\<rparr>)))
      \<in> {state (run_this run), IN_PROGRESS}" for tx ks' em s'
  proof -
    let ?r = "run\<lparr>run_this := parseTransactionResponse tx (run_this run), run_sent := s', emitted := em\<rparr>"
    have "state (run_this (lookup_rounds ext sp opts ts ks' ?r)) \<in> {state (run_this ?r), IN_PROGRESS}"
      by (rule Cons.IH)
    moreover have "state (run_this ?r) \<in> {state (run_this run), IN_PROGRESS}"
      by (simp add: parse_state)
    ultimately show ?thesis by auto
  qed
  show ?case
    using step
    by (auto simp: Let_def parse_state split: sum.splits option.splits prod.splits)
qed

lemma onResultSet_state:
  "onResultSet ext sp q err resp run = Stop r \<or> onResultSet ext sp q err resp run = Again q' r \<Longrightarrow>
   state (run_this r) \<in> {state (run_this run), IN_PROGRESS} \<and> run_sent r = run_sent run"
  by (auto simp: onResultSet_def Let_def parse_state split: sum.splits option.splits if_splits)

lemma query_rounds_state:
  "state (run_this (query_rounds ext sp opts ts q run)) \<in> {state (run_this run), IN_PROGRESS}"
proof (induction ext sp opts ts q run rule: query_rounds.induct)
  case (1 ext sp opts ts q run)
  show ?case
  proof (cases "queryToQueryProto ext q")
    case (Inl e)
    then show ?thesis
      using onResultSet_state [of ext sp q "Some e" None run]
      by (auto split: step.splits)
  next
    case (Inr qp)
    show ?thesis
    proof (cases ts)
      case Nil
      with Inr show ?thesis by simp
    next
      case (Cons t ts')
      show ?thesis
      proof (cases "request (run_this run)
             \<lparr>client = ''DatastoreClient'', method_name = ''runQuery'',
              reqOpts = opts\<lparr>query := Some qp\<rparr>\<rparr> t")
        case (Inl e)
        with Inr Cons show ?thesis by simp
      next
        case req: (Inr res)
        obtain rpcs err resp where res: "res = (rpcs, err, resp)" by (cases res) auto
        let ?run = "run\<lparr>run_sent := run_sent run @ rpcs\<rparr>"
        show ?thesis
        proof (cases "onResultSet ext sp q err resp ?run")
          case (Stop r)
          with Inr Cons req res onResultSet_state [of ext sp q err resp ?run r]
          show ?thesis by simp
        next
          case (Again q' r)
          have "state (run_this (query_rounds ext sp opts ts' q' r)) \<in> {state (run_this r), IN_PROGRESS}"
            using "1.IH" [OF Inr Cons req res [symmetric] refl Again] .
          moreover have "state (run_this r) \<in> {state (run_this run), IN_PROGRESS}"
            using onResultSet_state [of ext sp q err resp ?run r q'] Again by simp
          ultimately show ?thesis
            using Inr Cons req res Again by auto
        qed
      qed
    qed
  qed
qed

lemma createReadStream_state:
  assumes "createReadStream ext sp this ks options ts = Inr run"
  shows "state (run_this run) \<in> {state this, IN_PROGRESS}" and "state this \<noteq> EXPIRED"
proof -
  from assms have "\<exists>opts kps. run = lookup_rounds ext sp opts ts kps (new_stream this)"
    and ne: "state this \<noteq> EXPIRED"
    by (auto simp: createReadStream_def Let_def checkExpired_def
        split: sum.splits option.splits if_splits)
  then obtain opts kps where "run = lookup_rounds ext sp opts ts kps (new_stream this)"
    by blast
  then show "state (run_this run) \<in> {state this, IN_PROGRESS}"
    using lookup_rounds_state [of ext sp opts ts kps "new_stream this"]
    by (simp add: new_stream_def)
  show "state this \<noteq> EXPIRED" by (rule ne)
qed

lemma runQueryStream_state:
  assumes "runQueryStream ext sp this q options ts = Inr run"
  shows "state (run_this run) \<in> {state this, IN_PROGRESS}" and "state this \<noteq> EXPIRED"
proof -
  from assms have "\<exists>opts. run = query_rounds ext sp opts ts q (new_stream this)"
    and ne: "state this \<noteq> EXPIRED"
    by (auto simp: runQueryStream_def Let_def checkExpired_def
        split: sum.splits option.splits if_splits)
  then obtain opts where "run = query_rounds ext sp opts ts q (new_stream this)"
    by blast
  then show "state (run_this run) \<in> {state this, IN_PROGRESS}"
    using query_rounds_state [of ext sp opts ts q "new_stream this"]
    by (simp add: new_stream_def)
  show "state this \<noteq> EXPIRED" by (rule ne)
qed

lemma throwOnTransactionErrors_readOptions:
  "readOptions opts' = readOptions opts \<Longrightarrow>
   throwOnTransactionErrors this opts' = throwOnTransactionErrors this opts"
  by (simp add: throwOnTransactionErrors_def)

lemma request_sends:
  assumes "throwOnTransactionErrors this (reqOpts config) = None"
    and "getProjectId t = Inr project"
    and "method_name config = ''lookup'' \<or> method_name config = ''runQuery''"
  shows "\<exists>c. request this config t = Inr ([c], rpc_err t, rpc_resp t) \<and>
             method_name c = method_name config \<and>
             keys (reqOpts c) = keys (reqOpts config) \<and>
             query (reqOpts c) = query (reqOpts config)"
proof -
  have "throwOnTransactionErrors this
          (if truthy_string (databaseId this)
           then (reqOpts config)\<lparr>rq_databaseId := databaseId this\<rparr> else reqOpts config) = None"
    using assms(1) throwOnTransactionErrors_readOptions
      [of "(reqOpts config)\<lparr>rq_databaseId := databaseId this\<rparr>" "reqOpts config" this]
    by simp
  then show ?thesis
    using assms(2,3)
    by (auto simp: request_def prepareGaxRequest_def Let_def)
qed



lemma settle_prefix:
  assumes "\<forall>ob \<in> set pre. \<exists>d. f ob = Inr d"
  shows "\<exists>saved. settle (map (\<lambda>ob. (ob, f ob)) pre @ rest) =
           (saved @ fst (settle rest), fst (snd (settle rest)), snd (snd (settle rest)))"
  using assms
proof (induction pre)
  case Nil
  show ?case by (rule exI [of _ "[]"]) simp
next
  case (Cons ob pre)
  then obtain d saved where d: "f ob = Inr d"
    and s: "settle (map (\<lambda>ob. (ob, f ob)) pre @ rest) =
           (saved @ fst (settle rest), fst (snd (settle rest)), snd (snd (settle rest)))"
    by auto
  show ?case
    by (rule exI [of _ "Save (upsert_with ob d) # saved"]) (simp add: d s)
qed

lemma settle_only_saves:
  "settle xs = (saved, rejection, afterwards) \<Longrightarrow> set saved \<union> set afterwards \<subseteq> range Save"
proof (induction xs arbitrary: saved rejection afterwards rule: settle.induct)
  case 1
  then show ?case by simp
next
  case (2 obj fetched rest)
  then show ?case by (auto split: prod.splits)
next
  case (3 obj e rest)
  then show ?case by (auto split: sum.splits)
qed

lemma settle_rejected:
  assumes "\<forall>ob \<in> set pre. \<exists>d. f ob = Inr d" and "f obj = Inl e"
  shows "\<exists>saved afterwards.
           settle (map (\<lambda>ob. (ob, f ob)) (pre @ obj # post)) = (saved, Some e, afterwards)"
  using settle_prefix [OF assms(1), of "map (\<lambda>ob. (ob, f ob)) (obj # post)"] assms(2)
  by auto

lemma settle_resolved:
  assumes "\<forall>ob \<in> set objs. \<exists>d. f ob = Inr d"
  shows "\<exists>saved. settle (map (\<lambda>ob. (ob, f ob)) objs) = (saved, None, [])"
  using settle_prefix [OF assms, of "[]"] by auto

subsection \<open>Expired transactions (C1)\<close>

text \<open>
  C1, as stated, fails: \<^verbatim>\<open>delete\<close> and \<^verbatim>\<open>allocateIds\<close> do not look at the state. On an
  \<open>EXPIRED\<close> request object with a handle \<^verbatim>\<open>delete\<close> appends to the buffered requests and
  returns without an error; on one without a handle \<^verbatim>\<open>allocateIds\<close> sends its request;
  and \<^verbatim>\<open>createReadStream\<close> reports an empty key list before it checks the state.
\<close>

theorem expired_mutations_counterexample:
  "delete example_ext (example_this EXPIRED (Some (Str ''tx''))) (Single 1)
       (answer example_response) =
     Inr \<lparr>this_after = (example_this EXPIRED (Some (Str ''tx'')))
             \<lparr>requests := Some [empty_reqOpts\<lparr>mutations := Some [Delete 1]\<rparr>]\<rparr>,
          sent = [], callback = None, uncaught = None\<rparr> \<and>
   (case allocateIds example_ext (example_this EXPIRED None) 0 2 (answer example_response) of
      Inl e \<Rightarrow> []
    | Inr eff \<Rightarrow> map method_name (sent eff)) = [''allocateIds''] \<and>
   createReadStream example_ext consume_all (example_this EXPIRED None) (Several [])
       (example_options None None) [] =
     Inl (Error ''At least one Key object is required.'')"
  by (simp add: fixture_defs delete_def allocateIds_def createReadStream_def request_defs
      throwOnTransactionErrors_def empty_reqOpts_def Let_def)

text \<open>
  C1 (amended). On a request object whose state is \<open>EXPIRED\<close>, the reading entry points
  fail with the error \<^verbatim>\<open>This transaction has already expired.\<close>, send no request and
  leave the request object as it is: \<^verbatim>\<open>createReadStream\<close> (given at least one key) and
  \<^verbatim>\<open>runQueryStream\<close> throw it, \<^verbatim>\<open>get\<close> (given at least one key), \<^verbatim>\<open>runQuery\<close> and
  \<^verbatim>\<open>runAggregationQuery\<close> pass it to the callback.
\<close>

theorem expired_reads_fail_fast:
  assumes "state this = EXPIRED"
  shows "transactionExpiredError = ''This transaction has already expired.'' \<and>
    (arrify ks \<noteq> [] \<longrightarrow>
       createReadStream ext sp this ks options ts = Inl (Error transactionExpiredError) \<and>
       get ext this ks options ts =
         Inr \<lparr>this_after = this, sent = [],
              callback = Some (Some (Error transactionExpiredError), Undefined),
              uncaught = None\<rparr>) \<and>
    runQueryStream ext sp this q options ts = Inl (Error transactionExpiredError) \<and>
    runQuery ext this q options ts =
      Inr \<lparr>this_after = this, sent = [],
           callback = Some (Some (Error transactionExpiredError), None, None),
           uncaught = None\<rparr> \<and>
    runAggregationQuery ext this aq options t =
      Inr \<lparr>this_after = this, sent = [],
           callback = Some (Some (Error transactionExpiredError), None, None),
           uncaught = None\<rparr>"
  using assms
  by (simp add: transactionExpiredError_def createReadStream_def get_def runQueryStream_def
      runQuery_def runAggregationQuery_def checkExpired_def Let_def)

theorem expired_reads_fail_fast_witness:
  "state (example_this EXPIRED (Some (Str ''tx''))) = EXPIRED \<and>
   arrify (Single (1::nat)) \<noteq> [] \<and>
   get example_ext (example_this EXPIRED (Some (Str ''tx''))) (Single 1)
       (example_options None None) [answer example_response] =
     Inr \<lparr>this_after = example_this EXPIRED (Some (Str ''tx'')), sent = [],
          callback = Some (Some (Error ''This transaction has already expired.''), Undefined),
          uncaught = None\<rparr> \<and>
   runQuery example_ext (example_this EXPIRED (Some (Str ''tx'')))
       \<lparr>namespace = None, startVal = None, offsetVal = - 1, limitVal = None\<rparr>
       (example_options None None) [answer example_response] =
     Inr \<lparr>this_after = example_this EXPIRED (Some (Str ''tx'')), sent = [],
          callback = Some (Some (Error ''This transaction has already expired.''), None, None),
          uncaught = None\<rparr>"
  using expired_reads_fail_fast [where this = "example_this EXPIRED (Some (Str ''tx''))"
      and ext = example_ext and ks = "Single 1" and options = "example_options None None"
      and ts = "[answer example_response]"
      and q = "\<lparr>namespace = None, startVal = None, offsetVal = - 1, limitVal = None\<rparr>"]
  by (simp add: example_this_def)

subsection \<open>The transaction state (C2)\<close>

text \<open>
  C2, as stated, fails: \<^verbatim>\<open>parseTransactionResponse\<close> does not look at the current state.
  Processing a response with a non-empty handle takes an \<open>EXPIRED\<close> request object to
  \<open>IN_PROGRESS\<close>, and a \<^verbatim>\<open>get\<close> on a \<open>NOT_TRANSACTION\<close> request object whose lookup response
  carries a handle ends \<open>IN_PROGRESS\<close>.
\<close>

theorem leaves_terminal_states_counterexample:
  "state (parseTransactionResponse (Some (Str ''tx'')) (example_this EXPIRED None)) = IN_PROGRESS \<and>
   (case get example_ext (example_this NOT_TRANSACTION None) (Single 1) (example_options None None)
           [answer (example_response\<lparr>transaction := Some (Str ''tx''), found := [1]\<rparr>)] of
      Inl e \<Rightarrow> NOT_TRANSACTION
    | Inr eff \<Rightarrow> state (this_after eff)) = IN_PROGRESS"
  by (simp add: fixture_defs parseTransactionResponse_def get_def createReadStream_def
      check_defs options_defs request_defs new_stream_def resp_transaction_def consume_all_def
      Let_def)

text \<open>
  C2 (amended). Processing a response sets the state to \<open>IN_PROGRESS\<close> exactly when the
  response carries a transaction handle of positive byte length, from whatever state, and
  keeps the state otherwise; in particular \<open>NOT_STARTED\<close> becomes \<open>IN_PROGRESS\<close> exactly
  then. \<^verbatim>\<open>delete\<close> and \<^verbatim>\<open>allocateIds\<close> keep the state; \<^verbatim>\<open>get\<close>, \<^verbatim>\<open>runQuery\<close> and
  \<^verbatim>\<open>runAggregationQuery\<close> end in the state they started in or in \<open>IN_PROGRESS\<close>, and
  invoked in \<open>EXPIRED\<close> they leave it \<open>EXPIRED\<close>.
\<close>

theorem state_transitions:
  "state (parseTransactionResponse tx this) =
     (if (case tx of None \<Rightarrow> False | Some h \<Rightarrow> 0 < byteLength h) then IN_PROGRESS
      else state this) \<and>
   (\<forall>eff. delete ext this ks t = Inr eff \<longrightarrow> state (this_after eff) = state this) \<and>
   (\<forall>eff. allocateIds ext this k n t = Inr eff \<longrightarrow> state (this_after eff) = state this) \<and>
   (\<forall>eff. get ext this ks options ts = Inr eff \<longrightarrow>
      state (this_after eff) \<in> {state this, IN_PROGRESS} \<and>
      (state this = EXPIRED \<longrightarrow> state (this_after eff) = EXPIRED)) \<and>
   (\<forall>eff. runQuery ext this q options ts = Inr eff \<longrightarrow>
      state (this_after eff) \<in> {state this, IN_PROGRESS} \<and>
      (state this = EXPIRED \<longrightarrow> state (this_after eff) = EXPIRED)) \<and>
   (\<forall>eff. runAggregationQuery ext this aq options t = Inr eff \<longrightarrow>
      state (this_after eff) \<in> {state this, IN_PROGRESS} \<and>
      (state this = EXPIRED \<longrightarrow> state (this_after eff) = EXPIRED))"
proof (intro conjI allI impI)
  show "state (parseTransactionResponse tx this) =
     (if (case tx of None \<Rightarrow> False | Some h \<Rightarrow> 0 < byteLength h) then IN_PROGRESS
      else state this)"
    by (rule parse_state)
next
  fix eff assume "delete ext this ks t = Inr eff"
  then show "state (this_after eff) = state this"
    by (auto simp: delete_def Let_def split: if_splits sum.splits option.splits)
next
  fix eff assume "allocateIds ext this k n t = Inr eff"
  then show "state (this_after eff) = state this"
    by (auto simp: allocateIds_def split: if_splits sum.splits option.splits)
next
  fix eff assume g: "get ext this ks options ts = Inr eff"
  show "state (this_after eff) \<in> {state this, IN_PROGRESS}"
    using g createReadStream_state(1) [of ext consume_all this ks options ts]
    by (auto simp: get_def split: sum.splits)
  assume "state this = EXPIRED"
  with g show "state (this_after eff) = EXPIRED"
    using createReadStream_state(2) [of ext consume_all this ks options ts]
    by (auto simp: get_def split: sum.splits)
next
  fix eff assume g: "runQuery ext this q options ts = Inr eff"
  show "state (this_after eff) \<in> {state this, IN_PROGRESS}"
    using g runQueryStream_state(1) [of ext consume_all this q options ts]
    by (auto simp: runQuery_def split: sum.splits)
  assume "state this = EXPIRED"
  with g show "state (this_after eff) = EXPIRED"
    using runQueryStream_state(2) [of ext consume_all this q options ts]
    by (auto simp: runQuery_def split: sum.splits)
next
  fix eff assume g: "runAggregationQuery ext this aq options t = Inr eff"
  show "state (this_after eff) \<in> {state this, IN_PROGRESS}"
    using g
    by (auto simp: runAggregationQuery_def Let_def parse_state
        split: sum.splits option.splits if_splits)
  assume "state this = EXPIRED"
  with g show "state (this_after eff) = EXPIRED"
    by (auto simp: runAggregationQuery_def)
qed


theorem state_transitions_witness:
  "state (parseTransactionResponse (Some (Str ''tx'')) (example_this NOT_STARTED None)) = IN_PROGRESS \<and>
   state (parseTransactionResponse (Some (Str [])) (example_this NOT_STARTED None)) = NOT_STARTED \<and>
   (\<exists>eff. delete example_ext (example_this EXPIRED (Some (Str ''tx''))) (Single 1)
            (answer example_response) = Inr eff \<and> state (this_after eff) = EXPIRED) \<and>
   (\<exists>eff. get example_ext (example_this EXPIRED None) (Single 1) (example_options None None)
            [answer example_response] = Inr eff \<and> state (this_after eff) = EXPIRED)"
proof -
  have p1: "state (parseTransactionResponse (Some (Str ''tx'')) (example_this NOT_STARTED None))
      = IN_PROGRESS"
    using state_transitions [THEN conjunct1, of "Some (Str ''tx'')" "example_this NOT_STARTED None"]
    by simp
  have p2: "state (parseTransactionResponse (Some (Str [])) (example_this NOT_STARTED None))
      = NOT_STARTED"
    using state_transitions [THEN conjunct1, of "Some (Str [])" "example_this NOT_STARTED None"]
    by (simp add: example_this_def)
  obtain d where d: "delete example_ext (example_this EXPIRED (Some (Str ''tx''))) (Single 1)
            (answer example_response) = Inr d"
    by (simp add: delete_def example_this_def)
  have p3: "state (this_after d) = EXPIRED"
    using state_transitions [THEN conjunct2, THEN conjunct1, rule_format, OF d]
    by (simp add: example_this_def)
  obtain g where g: "get example_ext (example_this EXPIRED None) (Single 1)
            (example_options None None) [answer example_response] = Inr g"
    by (cases "createReadStream example_ext consume_all (example_this EXPIRED None) (Single 1)
            (example_options None None) [answer example_response]") (simp_all add: get_def)
  have p4: "state (this_after g) = EXPIRED"
    using state_transitions [THEN conjunct2, THEN conjunct2, THEN conjunct2, THEN conjunct1,
        rule_format, OF g]
    by (simp add: example_this_def)
  from p1 p2 d p3 g p4 show ?thesis by blast
qed

subsection \<open>Query pagination (C3)\<close>

text \<open>
  What \<^verbatim>\<open>onResultSet\<close> does on a round that succeeds (no error, results that are
  formatted, a consumer that has not ended the stream) and whose batch says
  \<^verbatim>\<open>NOT_FINISHED\<close>. When the batch has its \<^verbatim>\<open>entityResults\<close>, or the limit of the query
  is absent or not positive, \<^verbatim>\<open>makeRequest\<close> is called again with the query advanced: the
  start cursor is the round's end cursor (in base64, as the \<^verbatim>\<open>info\<close> event carries it);
  the offset is the previous offset, with the sentinel \<open>-1\<close> read as \<open>0\<close>, minus the
  round's skipped results; the limit is decremented by the number of entity results of
  the round only when it is set and positive, and kept otherwise. When the batch has no
  \<^verbatim>\<open>entityResults\<close> and the limit is positive, reading the length of the absent array
  raises a \<^verbatim>\<open>TypeError\<close> that nothing catches, and no request follows.
\<close>

lemma onResultSet_not_finished:
  assumes "batch r = Some b" and "moreResults b = ''NOT_FINISHED''"
    and "(case entityResults b of None \<Rightarrow> Inr [] | Some rs \<Rightarrow> formatArray ext rs) = Inr es"
    and "\<not> snd (sp es (emitted run))"
  shows "onResultSet ext sp q None (Some r) run =
      (if entityResults b = None \<and> (case limitVal q of None \<Rightarrow> False | Some l \<Rightarrow> 0 < l)
       then Stop (run\<lparr>run_this := parseTransactionResponse (transaction r) (run_this run),
                      emitted := fst (sp es (emitted run)),
                      status := Uncaught TypeError\<rparr>)
       else Again
        \<lparr>namespace = namespace q,
         startVal = map_option (base64 ext) (endCursor b),
         offsetVal = (if offsetVal q = - 1 then 0 else offsetVal q) - skippedResults b,
         limitVal = (case limitVal q of
                       None \<Rightarrow> None
                     | Some l \<Rightarrow>
                         if 0 < l
                         then Some (l - int (length (case entityResults b of
                                                       None \<Rightarrow> [] | Some rs \<Rightarrow> rs)))
                         else Some l)\<rparr>
        (run\<lparr>run_this := parseTransactionResponse (transaction r) (run_this run),
             emitted := fst (sp es (emitted run))\<rparr>))"
  using assms
  by (cases q)
     (auto simp: onResultSet_def Let_def query_start_def query_offset_def query_limit_def
        resp_transaction_def split: option.splits)

text \<open>The worked example of the specification: a query with limit 10 and offset 5 whose
  first round skips 5 and returns 3 entities is followed by a second request with offset
  0, limit 7 and the first round's end cursor; a query without offset and with the limit
  \<open>-1\<close> keeps its limit.\<close>

lemma query_continuation_example:
  "map_sum id (\<lambda>run. (map (\<lambda>c. query (reqOpts c)) (run_sent run), emitted run, status run))
      (runQueryStream example_ext consume_all (example_this NOT_TRANSACTION None)
         (example_query 5 (Some 10) None) (example_options None None)
         [answer (example_batch ''NOT_FINISHED'' ''cursor1'' [1, 2, 3] 5),
          answer (example_batch ''NO_MORE_RESULTS'' ''cursor2'' [4] 0)]) =
    Inr ([Some (example_query 5 (Some 10) None),
          Some (example_query 0 (Some 7) (Some ''cursor1''))],
         [1, 2, 3, 4], Ended) \<and>
   onResultSet example_ext consume_all (example_query (- 1) (Some (- 1)) None) None
       (Some (example_batch ''NOT_FINISHED'' ''cursor1'' [1, 2, 3] 0))
       (new_stream (example_this NOT_TRANSACTION None)) =
     Again (example_query 0 (Some (- 1)) (Some ''cursor1''))
       ((new_stream (example_this NOT_TRANSACTION None))\<lparr>emitted := [1, 2, 3]\<rparr>)"
  by (simp add: fixture_defs example_batch_def example_query_def runQueryStream_def
      check_defs options_defs request_defs
      new_stream_def onResultSet_def resp_transaction_def consume_all_def
      parseTransactionResponse_def query_start_def query_offset_def query_limit_def Let_def)

text \<open>
  C3. The source departs from C3 on a round whose batch says \<^verbatim>\<open>NOT_FINISHED\<close> and has no
  \<^verbatim>\<open>entityResults\<close>, for a query with a positive limit. C3 asks for a next round with the
  limit decremented by the number of entities returned, here none. \<^verbatim>\<open>onResultSet\<close>
  guards the absent array where it formats the results, but not where it reads
  \<^verbatim>\<open>resp.batch.entityResults.length\<close>: for a query with limit 10 and offset 5 and such a
  first round, the \<^verbatim>\<open>TypeError\<close> escapes, the stream is neither ended nor destroyed, and
  the first request stays the only one although a second answer is at hand.
\<close>

theorem query_continuation_missing_results:
  "onResultSet example_ext consume_all (example_query 5 (Some 10) None) None
       (Some (example_response\<lparr>batch := Some
          \<lparr>moreResults = ''NOT_FINISHED'', endCursor = Some ''cursor1'', entityResults = None,
           skippedResults = 5, aggregationResults = []\<rparr>\<rparr>))
       (new_stream (example_this NOT_TRANSACTION None)) =
     Stop ((new_stream (example_this NOT_TRANSACTION None))\<lparr>status := Uncaught TypeError\<rparr>) \<and>
   map_sum id (\<lambda>run. (map (\<lambda>c. query (reqOpts c)) (run_sent run), emitted run, status run))
      (runQueryStream example_ext consume_all (example_this NOT_TRANSACTION None)
         (example_query 5 (Some 10) None) (example_options None None)
         [answer (example_response\<lparr>batch := Some
            \<lparr>moreResults = ''NOT_FINISHED'', endCursor = Some ''cursor1'', entityResults = None,
             skippedResults = 5, aggregationResults = []\<rparr>\<rparr>),
          answer (example_batch ''NO_MORE_RESULTS'' ''cursor2'' [4] 0)]) =
    Inr ([Some (example_query 5 (Some 10) None)], [], Uncaught TypeError)"
  by (simp add: fixture_defs example_batch_def example_query_def runQueryStream_def
      check_defs options_defs request_defs
      new_stream_def onResultSet_def resp_transaction_def consume_all_def
      parseTransactionResponse_def query_start_def query_offset_def query_limit_def Let_def)

subsection \<open>Lookup pagination (C4)\<close>



subsection \<open>Read time with consistency (C5)\<close>

text \<open>
  C5, as stated, fails in three places: on an \<open>EXPIRED\<close> request object the expiry error
  comes first; \<^verbatim>\<open>createReadStream\<close> reports an empty key list first; and a read time of 0
  (like an empty consistency string) is falsy, so the pair is accepted and the lookup is
  sent.
\<close>

theorem readTime_and_consistency_counterexample:
  "createReadStream example_ext consume_all (example_this EXPIRED None) (Single 1)
       (example_options (Some ''strong'') (Some 1500)) [] =
     Inl (Error ''This transaction has already expired.'') \<and>
   createReadStream example_ext consume_all (example_this NOT_TRANSACTION None) (Several [])
       (example_options (Some ''strong'') (Some 1500)) [] =
     Inl (Error ''At least one Key object is required.'') \<and>
   get example_ext (example_this NOT_TRANSACTION None) (Single 1)
       (example_options (Some ''strong'') (Some 0)) [answer (example_response\<lparr>found := [1]\<rparr>)] =
     Inr \<lparr>this_after = example_this NOT_TRANSACTION None,
          sent = [\<lparr>client = ''DatastoreClient'', method_name = ''lookup'',
                   reqOpts = empty_reqOpts
                     \<lparr>keys := Some [1],
                      readOptions := Some (empty_readOptions\<lparr>readConsistency := Some 1\<rparr>),
                      projectId := Some ''project''\<rparr>\<rparr>],
          callback = Some (None, Entity 1), uncaught = None\<rparr>"
  by (simp add: fixture_defs get_def createReadStream_def check_defs options_defs request_defs
      new_stream_def resp_transaction_def consume_all_def parseTransactionResponse_def Let_def)

text \<open>
  C5 (amended). On a request object that is not \<open>EXPIRED\<close>, transactional or not, options
  with a non-zero read time together with a non-empty consistency are rejected with the
  error \<^verbatim>\<open>Read time and read consistency cannot both be specified.\<close>, no request is sent
  and the request object is unchanged: \<^verbatim>\<open>createReadStream\<close> (given at least one key) and
  \<^verbatim>\<open>runQueryStream\<close> throw it, \<^verbatim>\<open>get\<close> (given at least one key), \<^verbatim>\<open>runQuery\<close> and
  \<^verbatim>\<open>runAggregationQuery\<close> pass it to the callback.
\<close>

theorem readTime_and_consistency_rejected:
  assumes "state this \<noteq> EXPIRED"
    and "readTime options = Some t" and "t \<noteq> 0"
    and "consistency options = Some c" and "c \<noteq> []"
  shows "readTimeAndConsistencyError =
      ''Read time and read consistency cannot both be specified.'' \<and>
    (arrify ks \<noteq> [] \<longrightarrow>
       createReadStream ext sp this ks options ts = Inl (Error readTimeAndConsistencyError) \<and>
       get ext this ks options ts =
         Inr \<lparr>this_after = this, sent = [],
              callback = Some (Some (Error readTimeAndConsistencyError), Undefined),
              uncaught = None\<rparr>) \<and>
    runQueryStream ext sp this q options ts = Inl (Error readTimeAndConsistencyError) \<and>
    runQuery ext this q options ts =
      Inr \<lparr>this_after = this, sent = [],
           callback = Some (Some (Error readTimeAndConsistencyError), None, None),
           uncaught = None\<rparr> \<and>
    runAggregationQuery ext this aq options t' =
      Inr \<lparr>this_after = this, sent = [],
           callback = Some (Some (Error readTimeAndConsistencyError), None, None),
           uncaught = None\<rparr>"
  using assms
  by (simp add: readTimeAndConsistencyError_def createReadStream_def get_def runQueryStream_def
      runQuery_def runAggregationQuery_def checkExpired_def throwOnReadTimeAndConsistency_def
      truthy_number_def truthy_string_def Let_def)

theorem readTime_and_consistency_rejected_witness:
  "state (example_this IN_PROGRESS (Some (Str ''tx''))) \<noteq> EXPIRED \<and>
   readTime (example_options (Some ''strong'') (Some 1500)) = Some 1500 \<and> (1500::int) \<noteq> 0 \<and>
   consistency (example_options (Some ''strong'') (Some 1500)) = Some ''strong'' \<and>
   ''strong'' \<noteq> [] \<and> arrify (Single (1::nat)) \<noteq> [] \<and>
   get example_ext (example_this IN_PROGRESS (Some (Str ''tx''))) (Single 1)
       (example_options (Some ''strong'') (Some 1500)) [answer example_response] =
     Inr \<lparr>this_after = example_this IN_PROGRESS (Some (Str ''tx'')), sent = [],
          callback = Some (Some (Error
            ''Read time and read consistency cannot both be specified.''), Undefined),
          uncaught = None\<rparr> \<and>
   runAggregationQuery example_ext (example_this NOT_TRANSACTION None)
       \<lparr>aq_query = \<lparr>namespace = None, startVal = None, offsetVal = - 1, limitVal = None\<rparr>,
        aggregations = []\<rparr>
       (example_options (Some ''strong'') (Some 1500)) (answer example_response) =
     Inr \<lparr>this_after = example_this NOT_TRANSACTION None, sent = [],
          callback = Some (Some (Error
            ''Read time and read consistency cannot both be specified.''), None, None),
          uncaught = None\<rparr>"
  using readTime_and_consistency_rejected [where this = "example_this IN_PROGRESS (Some (Str ''tx''))"
      and options = "example_options (Some ''strong'') (Some 1500)" and t = 1500
      and c = "''strong''" and ext = example_ext and ks = "Single 1"
      and ts = "[answer example_response]"]
    readTime_and_consistency_rejected [where this = "example_this NOT_TRANSACTION None"
      and options = "example_options (Some ''strong'') (Some 1500)" and t = 1500
      and c = "''strong''" and ext = example_ext
      and aq = "\<lparr>aq_query = \<lparr>namespace = None, startVal = None, offsetVal = - 1, limitVal = None\<rparr>,
        aggregations = []\<rparr>" and t' = "answer example_response"]
  by (simp add: example_this_def example_options_def)

subsection \<open>delete (C6)\<close>

text \<open>
  C6, as stated, fails in two places. A request object that holds a handle and has no list
  of buffered requests (a request object that is not a transaction, after a response that
  carried a handle) makes \<^verbatim>\<open>delete\<close> throw a \<^verbatim>\<open>TypeError\<close>: nothing is appended. And
  without a handle, when the project id does not resolve, no request reaches the gax
  client: the callback receives the error of the resolution.
\<close>

theorem delete_counterexample:
  "delete example_ext (example_this NOT_TRANSACTION (Some (Str ''tx''))) (Single 1)
       (answer example_response) = Inl TypeError \<and>
   delete example_ext (example_this NOT_TRANSACTION None) (Single 1)
       \<lparr>getProjectId = Inl (Error ''no project''), rpc_err = None,
        rpc_resp = Some example_response\<rparr> =
     Inr \<lparr>this_after = example_this NOT_TRANSACTION None, sent = [],
          callback = Some (Some (Error ''no project''), None), uncaught = None\<rparr>"
  by (simp add: fixture_defs delete_def request_defs throwOnTransactionErrors_def
      empty_reqOpts_def truthy_string_def Let_def)

text \<open>
  C6 (amended). \<^verbatim>\<open>delete\<close> branches on the truthiness of \<^verbatim>\<open>this.id\<close> alone. With a
  handle, on a request object that has its list of buffered requests, the call appends
  exactly one record, holding the delete mutations of the keys, to that list, sends
  nothing and calls nothing back. Without a handle it leaves the request object unchanged
  and is exactly one call of \<^verbatim>\<open>request_\<close>, for a \<^verbatim>\<open>commit\<close> with those mutations, whose
  callback is the caller's: when the project id resolves, that call hands exactly one
  \<^verbatim>\<open>commit\<close> request to the gax client, in mode \<^verbatim>\<open>NON_TRANSACTIONAL\<close> and carrying those
  mutations, and the callback receives what the client answers; when the project id
  does not resolve, no request is handed over and the callback receives that error.
\<close>

theorem delete_buffers_or_commits:
  "(truthy_handle (this_id this) \<and> requests this = Some buffered \<longrightarrow>
      delete ext this ks t =
        Inr \<lparr>this_after = this\<lparr>requests := Some (buffered @
                 [empty_reqOpts\<lparr>mutations :=
                    Some (map (\<lambda>k. Delete (keyToKeyProto ext k)) (arrify ks))\<rparr>])\<rparr>,
             sent = [], callback = None, uncaught = None\<rparr>) \<and>
   (\<not> truthy_handle (this_id this) \<longrightarrow>
      delete ext this ks t =
        map_sum id
          (\<lambda>(rpcs, cb). \<lparr>this_after = this, sent = rpcs, callback = Some cb, uncaught = None\<rparr>)
          (request this
             \<lparr>client = ''DatastoreClient'', method_name = ''commit'',
              reqOpts = empty_reqOpts\<lparr>mutations :=
                Some (map (\<lambda>k. Delete (keyToKeyProto ext k)) (arrify ks))\<rparr>\<rparr> t)) \<and>
   (\<not> truthy_handle (this_id this) \<and> getProjectId t = Inr project \<longrightarrow>
      delete ext this ks t =
        Inr \<lparr>this_after = this,
             sent = [\<lparr>client = ''DatastoreClient'', method_name = ''commit'',
                      reqOpts = empty_reqOpts
                        \<lparr>mutations := Some (map (\<lambda>k. Delete (keyToKeyProto ext k)) (arrify ks)),
                         mode := Some ''NON_TRANSACTIONAL'',
                         rq_databaseId :=
                           (if truthy_string (databaseId this) then databaseId this else None),
                         projectId := Some project\<rparr>\<rparr>],
             callback = Some (rpc_err t, rpc_resp t), uncaught = None\<rparr>) \<and>
   (\<not> truthy_handle (this_id this) \<and> getProjectId t = Inl err \<longrightarrow>
      delete ext this ks t =
        Inr \<lparr>this_after = this, sent = [], callback = Some (Some err, None),
             uncaught = None\<rparr>)"
proof (intro conjI impI)
  assume "truthy_handle (this_id this) \<and> requests this = Some buffered"
  then show "delete ext this ks t =
        Inr \<lparr>this_after = this\<lparr>requests := Some (buffered @
                 [empty_reqOpts\<lparr>mutations :=
                    Some (map (\<lambda>k. Delete (keyToKeyProto ext k)) (arrify ks))\<rparr>])\<rparr>,
             sent = [], callback = None, uncaught = None\<rparr>"
    by (simp add: delete_def Let_def)
next
  assume "\<not> truthy_handle (this_id this)"
  then show "delete ext this ks t =
        map_sum id
          (\<lambda>(rpcs, cb). \<lparr>this_after = this, sent = rpcs, callback = Some cb, uncaught = None\<rparr>)
          (request this
             \<lparr>client = ''DatastoreClient'', method_name = ''commit'',
              reqOpts = empty_reqOpts\<lparr>mutations :=
                Some (map (\<lambda>k. Delete (keyToKeyProto ext k)) (arrify ks))\<rparr>\<rparr> t)"
    by (simp add: delete_def Let_def split: sum.splits)
next
  assume "\<not> truthy_handle (this_id this) \<and> getProjectId t = Inr project"
  then show "delete ext this ks t =
        Inr \<lparr>this_after = this,
             sent = [\<lparr>client = ''DatastoreClient'', method_name = ''commit'',
                      reqOpts = empty_reqOpts
                        \<lparr>mutations := Some (map (\<lambda>k. Delete (keyToKeyProto ext k)) (arrify ks)),
                         mode := Some ''NON_TRANSACTIONAL'',
                         rq_databaseId :=
                           (if truthy_string (databaseId this) then databaseId this else None),
                         projectId := Some project\<rparr>\<rparr>],
             callback = Some (rpc_err t, rpc_resp t), uncaught = None\<rparr>"
    by (simp add: delete_def request_defs throwOnTransactionErrors_def empty_reqOpts_def Let_def)
next
  assume "\<not> truthy_handle (this_id this) \<and> getProjectId t = Inl err"
  then show "delete ext this ks t =
        Inr \<lparr>this_after = this, sent = [], callback = Some (Some err, None),
             uncaught = None\<rparr>"
    by (simp add: delete_def request_defs throwOnTransactionErrors_def empty_reqOpts_def Let_def)
qed

theorem delete_buffers_or_commits_witness:
  "truthy_handle (this_id (example_this IN_PROGRESS (Some (Str ''tx'')))) \<and>
   requests (example_this IN_PROGRESS (Some (Str ''tx''))) = Some [] \<and>
   delete example_ext (example_this IN_PROGRESS (Some (Str ''tx''))) (Several [1, 2])
       (answer example_response) =
     Inr \<lparr>this_after = (example_this IN_PROGRESS (Some (Str ''tx'')))
             \<lparr>requests := Some [empty_reqOpts\<lparr>mutations := Some [Delete 1, Delete 2]\<rparr>]\<rparr>,
          sent = [], callback = None, uncaught = None\<rparr> \<and>
   \<not> truthy_handle (this_id (example_this NOT_TRANSACTION None)) \<and>
   getProjectId (answer example_response) = Inr ''project'' \<and>
   delete example_ext (example_this NOT_TRANSACTION None) (Several [1, 2])
       (answer example_response) =
     Inr \<lparr>this_after = example_this NOT_TRANSACTION None,
          sent = [\<lparr>client = ''DatastoreClient'', method_name = ''commit'',
                   reqOpts = empty_reqOpts
                     \<lparr>mutations := Some [Delete 1, Delete 2],
                      mode := Some ''NON_TRANSACTIONAL'', projectId := Some ''project''\<rparr>\<rparr>],
          callback = Some (None, Some example_response), uncaught = None\<rparr> \<and>
   delete example_ext (example_this NOT_TRANSACTION None) (Several [1, 2])
       \<lparr>getProjectId = Inl (Error ''no project''), rpc_err = None,
        rpc_resp = Some example_response\<rparr> =
     Inr \<lparr>this_after = example_this NOT_TRANSACTION None, sent = [],
          callback = Some (Some (Error ''no project''), None), uncaught = None\<rparr>"
  using delete_buffers_or_commits [where this = "example_this IN_PROGRESS (Some (Str ''tx''))"
      and buffered = "[]"
      and ext = example_ext and ks = "Several [1, 2]" and t = "answer example_response",
      THEN conjunct1]
    delete_buffers_or_commits [where this = "example_this NOT_TRANSACTION None"
      and ext = example_ext and ks = "Several [1, 2]" and t = "answer example_response"
      and project = "''project''", THEN conjunct2, THEN conjunct2, THEN conjunct1]
    delete_buffers_or_commits [where this = "example_this NOT_TRANSACTION None"
      and ext = example_ext and ks = "Several [1, 2]"
      and t = "\<lparr>getProjectId = Inl (Error ''no project''), rpc_err = None,
        rpc_resp = Some example_response\<rparr>"
      and err = "Error ''no project''", THEN conjunct2, THEN conjunct2, THEN conjunct2]
  by (simp add: fixture_defs truthy_string_def empty_reqOpts_def)

subsection \<open>merge (C7)\<close>

text \<open>
  C7. Whatever the rollback does, the callback of \<^verbatim>\<open>merge\<close> receives the error that
  started it: the error of the transaction run; else the error of the first fetch that
  fails (no commit is attempted); else, when every fetch succeeds, the error of the
  commit. In each case the rollback is called and its own error is only discarded, and
  the arguments of the callback do not depend on how the rollback settles.
\<close>

theorem merge_reports_original_error:
  "(run_result tx = Some e \<longrightarrow>
      merge tx entities =
        \<lparr>calls = [Run, Rollback], merge_callback = Some (Some e, None),
         swallowed = rollback_result tx\<rparr>) \<and>
   (run_result tx = None \<and>
    map prepareEntityObject (arrify entities) = pre @ obj # post \<and>
    (\<forall>ob \<in> set pre. \<exists>d. get_result tx (obj_key ob) = Inr d) \<and>
    get_result tx (obj_key obj) = Inl e \<longrightarrow>
      merge_callback (merge tx entities) = Some (Some e, None) \<and>
      swallowed (merge tx entities) = rollback_result tx \<and>
      Rollback \<in> set (calls (merge tx entities)) \<and>
      Commit \<notin> set (calls (merge tx entities))) \<and>
   (run_result tx = None \<and>
    (\<forall>ob \<in> set (map prepareEntityObject (arrify entities)).
        \<exists>d. get_result tx (obj_key ob) = Inr d) \<and>
    commit_result tx = Inl e \<longrightarrow>
      merge_callback (merge tx entities) = Some (Some e, None) \<and>
      swallowed (merge tx entities) = rollback_result tx \<and>
      last (calls (merge tx entities)) = Rollback) \<and>
   (\<forall>rb. merge_callback (merge (tx\<lparr>rollback_result := rb\<rparr>) entities) =
         merge_callback (merge tx entities))"
proof (intro conjI impI allI)
  assume "run_result tx = Some e"
  then show "merge tx entities =
        \<lparr>calls = [Run, Rollback], merge_callback = Some (Some e, None),
         swallowed = rollback_result tx\<rparr>"
    by (simp add: merge_def)
next
  assume a: "run_result tx = None \<and>
    map prepareEntityObject (arrify entities) = pre @ obj # post \<and>
    (\<forall>ob \<in> set pre. \<exists>d. get_result tx (obj_key ob) = Inr d) \<and>
    get_result tx (obj_key obj) = Inl e"
  then obtain saved afterwards where
    s: "settle (map (\<lambda>ob. (ob, get_result tx (obj_key ob))) (pre @ obj # post)) =
          (saved, Some e, afterwards)"
    using settle_rejected [of pre "\<lambda>ob. get_result tx (obj_key ob)" obj e post] by auto
  have saves: "Commit \<notin> set saved \<union> set afterwards"
    using settle_only_saves [OF s] by auto
  show "merge_callback (merge tx entities) = Some (Some e, None)"
    using a s by (simp add: merge_def Let_def)
  show "swallowed (merge tx entities) = rollback_result tx"
    using a s by (simp add: merge_def Let_def)
  show "Rollback \<in> set (calls (merge tx entities))"
    using a s by (simp add: merge_def Let_def)
  show "Commit \<notin> set (calls (merge tx entities))"
    using a s saves by (auto simp: merge_def Let_def)
next
  assume a: "run_result tx = None \<and>
    (\<forall>ob \<in> set (map prepareEntityObject (arrify entities)).
        \<exists>d. get_result tx (obj_key ob) = Inr d) \<and>
    commit_result tx = Inl e"
  then obtain saved where
    s: "settle (map (\<lambda>ob. (ob, get_result tx (obj_key ob)))
          (map prepareEntityObject (arrify entities))) = (saved, None, [])"
    using settle_resolved [of "map prepareEntityObject (arrify entities)"
        "\<lambda>ob. get_result tx (obj_key ob)"] by auto
  show "merge_callback (merge tx entities) = Some (Some e, None)"
    using a s by (simp add: merge_def Let_def comp_def)
  show "swallowed (merge tx entities) = rollback_result tx"
    using a s by (simp add: merge_def Let_def comp_def)
  show "last (calls (merge tx entities)) = Rollback"
    using a s by (simp add: merge_def Let_def comp_def)
next
  fix rb
  show "merge_callback (merge (tx\<lparr>rollback_result := rb\<rparr>) entities) =
         merge_callback (merge tx entities)"
    by (simp add: merge_def Let_def split: option.splits prod.splits sum.splits)
qed

text \<open>A fetch fails and the rollback fails too: the callback receives the fetch error.\<close>

theorem merge_reports_original_error_witness:
  "run_result example_transaction = None \<and>
   get_result example_transaction (Some 2) = Inl (Error ''fetch failed'') \<and>
   rollback_result example_transaction = Some (Error ''rollback failed'') \<and>
   merge_callback (merge example_transaction (Several [Keyed 1 Map.empty, Keyed 2 Map.empty])) =
     Some (Some (Error ''fetch failed''), None) \<and>
   swallowed (merge example_transaction (Several [Keyed 1 Map.empty, Keyed 2 Map.empty])) =
     Some (Error ''rollback failed'')"
  using merge_reports_original_error [THEN conjunct2, THEN conjunct1, rule_format,
      where tx = example_transaction
        and entities = "Several [Keyed 1 Map.empty, Keyed 2 Map.empty]"
        and pre = "[\<lparr>obj_key = Some 1, obj_data = Some Map.empty, obj_method = None\<rparr>]"
        and obj = "\<lparr>obj_key = Some 2, obj_data = Some Map.empty, obj_method = None\<rparr>"
        and post = "[]" and e = "Error ''fetch failed''"]
  by (simp add: example_transaction_def)

subsection \<open>get (C8, C10)\<close>

text \<open>
  C8. \<^verbatim>\<open>get\<close> with an empty array of keys passes the error
  \<^verbatim>\<open>At least one Key object is required.\<close> to the callback and sends nothing. When the
  lookup is answered in one successful round with no deferred keys, the callback receives
  no error and, for a single key, the first formatted entity itself, or \<^verbatim>\<open>undefined\<close> when
  nothing was found; for an array of keys, the array of the formatted entities, also when
  there is one. The same holds of every lookup whose stream ends, in however many rounds,
  for the entities it has emitted.
\<close>

theorem get_unwraps_single_key:
  "get ext this (Several []) options ts =
     Inr \<lparr>this_after = this, sent = [],
          callback = Some (Some (Error ''At least one Key object is required.''), Undefined),
          uncaught = None\<rparr> \<and>
   (arrify ks \<noteq> [] \<and> state this \<noteq> EXPIRED \<and>
    throwOnReadTimeAndConsistency options = None \<and>
    throwOnTransactionErrors this (getRequestOptions this options) = None \<and>
    getProjectId t = Inr project \<and> rpc_err t = None \<and> rpc_resp t = Some r \<and>
    formatArray ext (found r) = Inr es \<and> deferred_keys_of r = [] \<longrightarrow>
    (\<exists>eff. get ext this ks options (t # ts) = Inr eff \<and>
           callback eff =
             Some (None,
                   case ks of
                     Single k \<Rightarrow> (case es of [] \<Rightarrow> Undefined | e # rest \<Rightarrow> Entity e)
                   | Several l \<Rightarrow> EntityArray es))) \<and>
   (createReadStream ext consume_all this ks options ts = Inr run \<and> status run = Ended \<longrightarrow>
    (\<exists>eff. get ext this ks options ts = Inr eff \<and>
           callback eff =
             Some (None,
                   case ks of
                     Single k \<Rightarrow>
                       (case emitted run of [] \<Rightarrow> Undefined | e # rest \<Rightarrow> Entity e)
                   | Several l \<Rightarrow> EntityArray (emitted run))))"
proof (intro conjI impI)
  show "get ext this (Several []) options ts =
     Inr \<lparr>this_after = this, sent = [],
          callback = Some (Some (Error ''At least one Key object is required.''), Undefined),
          uncaught = None\<rparr>"
    by (simp add: get_def createReadStream_def)
next
  assume a: "arrify ks \<noteq> [] \<and> state this \<noteq> EXPIRED \<and>
    throwOnReadTimeAndConsistency options = None \<and>
    throwOnTransactionErrors this (getRequestOptions this options) = None \<and>
    getProjectId t = Inr project \<and> rpc_err t = None \<and> rpc_resp t = Some r \<and>
    formatArray ext (found r) = Inr es \<and> deferred_keys_of r = []"
  let ?opts = "getRequestOptions this options"
  let ?kps = "map (keyToKeyProto ext) (arrify ks)"
  let ?cfg = "\<lparr>client = ''DatastoreClient'', method_name = ''lookup'',
              reqOpts = ?opts\<lparr>keys := Some ?kps\<rparr>\<rparr>"
  have "throwOnTransactionErrors this (reqOpts ?cfg) = None"
    using a throwOnTransactionErrors_readOptions [of "?opts\<lparr>keys := Some ?kps\<rparr>" ?opts this]
    by simp
  then obtain c where c: "request this ?cfg t = Inr ([c], None, Some r)"
    using request_sends [of this ?cfg t project] a by auto
  have run: "createReadStream ext consume_all this ks options (t # ts) =
      Inr \<lparr>run_this = parseTransactionResponse (transaction r) this, run_sent = [c],
           emitted = es, infos = [], status = Ended\<rparr>"
    using a c
    by (simp add: createReadStream_def checkExpired_def Let_def new_stream_def consume_all_def
        resp_transaction_def deferred_keys_of_def split: option.splits)
  have fr: "first_result es = (case es of [] \<Rightarrow> Undefined | e # rest \<Rightarrow> Entity e)"
    by (cases es) simp_all
  show "\<exists>eff. get ext this ks options (t # ts) = Inr eff \<and>
           callback eff =
             Some (None,
                   case ks of
                     Single k \<Rightarrow> (case es of [] \<Rightarrow> Undefined | e # rest \<Rightarrow> Entity e)
                   | Several l \<Rightarrow> EntityArray es)"
  proof (cases ks)
    case (Single k)
    with run show ?thesis by (simp add: get_def fr)
  next
    case (Several l)
    with run show ?thesis by (simp add: get_def)
  qed
next
  assume a: "createReadStream ext consume_all this ks options ts = Inr run \<and> status run = Ended"
  have fr: "first_result (emitted run) =
      (case emitted run of [] \<Rightarrow> Undefined | e # rest \<Rightarrow> Entity e)"
    by (cases "emitted run") simp_all
  show "\<exists>eff. get ext this ks options ts = Inr eff \<and>
           callback eff =
             Some (None,
                   case ks of
                     Single k \<Rightarrow>
                       (case emitted run of [] \<Rightarrow> Undefined | e # rest \<Rightarrow> Entity e)
                   | Several l \<Rightarrow> EntityArray (emitted run))"
    using a by (cases ks) (simp_all add: get_def fr)
qed

theorem get_unwraps_single_key_witness:
  "(\<exists>eff. get example_ext (example_this NOT_TRANSACTION None) (Single 1)
            (example_options None None) [answer (example_found [1] [])] = Inr eff \<and>
          callback eff = Some (None, Entity 1)) \<and>
   (\<exists>eff. get example_ext (example_this NOT_TRANSACTION None) (Single 1)
            (example_options None None) [answer (example_found [] [])] = Inr eff \<and>
          callback eff = Some (None, Undefined)) \<and>
   (\<exists>eff. get example_ext (example_this NOT_TRANSACTION None) (Several [1])
            (example_options None None) [answer (example_found [1] [])] = Inr eff \<and>
          callback eff = Some (None, EntityArray [1]))"
proof -
  let ?rq = "example_this NOT_TRANSACTION None"
  let ?options = "example_options None None"
  have pre: "state ?rq \<noteq> EXPIRED" "throwOnReadTimeAndConsistency ?options = None"
    "throwOnTransactionErrors ?rq (getRequestOptions ?rq ?options) = None"
    by (simp_all add: fixture_defs check_defs options_defs)
  have t: "getProjectId (answer (example_found fs [])) = Inr ''project''"
    "rpc_err (answer (example_found fs [])) = None"
    "rpc_resp (answer (example_found fs [])) = Some (example_found fs [])"
    "formatArray example_ext (found (example_found fs [])) = Inr fs"
    "deferred_keys_of (example_found fs []) = []" for fs
    by (simp_all add: fixture_defs example_found_def deferred_keys_of_def)
  have a: "\<exists>eff. get example_ext ?rq (Single 1) ?options [answer (example_found [1] [])] = Inr eff \<and>
          callback eff = Some (None, Entity 1)"
    using get_unwraps_single_key [THEN conjunct2, THEN conjunct1, rule_format,
        where ext = example_ext and this = ?rq and ks = "Single 1" and options = ?options
          and t = "answer (example_found [1] [])" and ts = "[]" and r = "example_found [1] []"
          and es = "[1]" and project = "''project''"] pre t [of "[1]"]
    by simp
  have b: "\<exists>eff. get example_ext ?rq (Single 1) ?options [answer (example_found [] [])] = Inr eff \<and>
          callback eff = Some (None, Undefined)"
    using get_unwraps_single_key [THEN conjunct2, THEN conjunct1, rule_format,
        where ext = example_ext and this = ?rq and ks = "Single 1" and options = ?options
          and t = "answer (example_found [] [])" and ts = "[]" and r = "example_found [] []"
          and es = "[]" and project = "''project''"] pre t [of "[]"]
    by simp
  have c: "\<exists>eff. get example_ext ?rq (Several [1]) ?options [answer (example_found [1] [])] = Inr eff \<and>
          callback eff = Some (None, EntityArray [1])"
    using get_unwraps_single_key [THEN conjunct2, THEN conjunct1, rule_format,
        where ext = example_ext and this = ?rq and ks = "Several [1]" and options = ?options
          and t = "answer (example_found [1] [])" and ts = "[]" and r = "example_found [1] []"
          and es = "[1]" and project = "''project''"] pre t [of "[1]"]
    by simp
  from a b c show ?thesis by blast
qed

text \<open>
  C10. \<^verbatim>\<open>get\<close> with a callback never throws: whenever \<^verbatim>\<open>createReadStream\<close> throws, the
  callback receives that error, nothing is sent and the request object is unchanged. That
  covers each check of \<^verbatim>\<open>createReadStream\<close>: the empty key list, the expired transaction,
  read time together with consistency, and the read options a transaction forbids.
\<close>

theorem get_never_throws:
  "(\<exists>eff. get ext this ks options ts = Inr eff) \<and>
   (\<forall>e. createReadStream ext consume_all this ks options ts = Inl e \<longrightarrow>
      get ext this ks options ts =
        Inr \<lparr>this_after = this, sent = [], callback = Some (Some e, Undefined),
             uncaught = None\<rparr>) \<and>
   (arrify ks = [] \<longrightarrow>
      createReadStream ext consume_all this ks options ts =
        Inl (Error ''At least one Key object is required.'')) \<and>
   (arrify ks \<noteq> [] \<and> state this = EXPIRED \<longrightarrow>
      createReadStream ext consume_all this ks options ts =
        Inl (Error ''This transaction has already expired.'')) \<and>
   (arrify ks \<noteq> [] \<and> state this \<noteq> EXPIRED \<and>
    truthy_number (readTime options) \<and> truthy_string (consistency options) \<longrightarrow>
      createReadStream ext consume_all this ks options ts =
        Inl (Error ''Read time and read consistency cannot both be specified.'')) \<and>
   (\<forall>e. arrify ks \<noteq> [] \<and> state this \<noteq> EXPIRED \<and>
        throwOnReadTimeAndConsistency options = None \<and>
        throwOnTransactionErrors this (getRequestOptions this options) = Some e \<longrightarrow>
      createReadStream ext consume_all this ks options ts = Inl e)"
  by (cases "createReadStream ext consume_all this ks options ts")
     (auto simp: get_def createReadStream_def check_defs Let_def split: option.splits)

theorem get_never_throws_witness:
  "get example_ext (example_this IN_PROGRESS (Some (Str ''tx''))) (Single 1)
       (example_options (Some ''strong'') None) [answer example_response] =
     Inr \<lparr>this_after = example_this IN_PROGRESS (Some (Str ''tx'')), sent = [],
          callback = Some (Some (Error
            ''Read consistency cannot be specified in a transaction.''), Undefined),
          uncaught = None\<rparr> \<and>
   get example_ext (example_this EXPIRED None) (Single 1)
       (example_options None None) [answer example_response] =
     Inr \<lparr>this_after = example_this EXPIRED None, sent = [],
          callback = Some (Some (Error ''This transaction has already expired.''), Undefined),
          uncaught = None\<rparr>"
proof -
  let ?rq = "example_this IN_PROGRESS (Some (Str ''tx''))"
  let ?options = "example_options (Some ''strong'') None"
  have conflict: "throwOnTransactionErrors ?rq (getRequestOptions ?rq ?options) =
      Some (Error ''Read consistency cannot be specified in a transaction.'')"
    by (simp add: fixture_defs check_defs options_defs)
  have "createReadStream example_ext consume_all ?rq (Single 1) ?options
          [answer example_response] =
        Inl (Error ''Read consistency cannot be specified in a transaction.'')"
    using get_never_throws [where ext = example_ext and this = ?rq and ks = "Single 1"
        and options = ?options and ts = "[answer example_response]"] conflict
    by (simp add: fixture_defs check_defs)
  then have first: "get example_ext ?rq (Single 1) ?options [answer example_response] =
      Inr \<lparr>this_after = ?rq, sent = [],
           callback = Some (Some (Error
             ''Read consistency cannot be specified in a transaction.''), Undefined),
           uncaught = None\<rparr>"
    using get_never_throws [where ext = example_ext and this = ?rq and ks = "Single 1"
        and options = ?options and ts = "[answer example_response]"]
    by simp
  have "createReadStream example_ext consume_all (example_this EXPIRED None) (Single 1)
          (example_options None None) [answer example_response] =
        Inl (Error ''This transaction has already expired.'')"
    using get_never_throws [where ext = example_ext and this = "example_this EXPIRED None"
        and ks = "Single 1" and options = "example_options None None"
        and ts = "[answer example_response]"]
    by (simp add: example_this_def)
  then have second: "get example_ext (example_this EXPIRED None) (Single 1)
       (example_options None None) [answer example_response] =
     Inr \<lparr>this_after = example_this EXPIRED None, sent = [],
          callback = Some (Some (Error ''This transaction has already expired.''), Undefined),
          uncaught = None\<rparr>"
    using get_never_throws [where ext = example_ext and this = "example_this EXPIRED None"
        and ks = "Single 1" and options = "example_options None None"
        and ts = "[answer example_response]"]
    by simp
  from first second show ?thesis by simp
qed

subsection \<open>Read time (C9)\<close>

text \<open>
  C9, as stated, fails for a read time of 0: \<^verbatim>\<open>if (options.readTime)\<close> is false for the
  number 0, so no \<^verbatim>\<open>readOptions\<close> is composed at all.
\<close>

theorem readTime_zero_counterexample:
  "readOptions (getRequestOptions (example_this NOT_TRANSACTION None)
                  (example_options None (Some 0))) = None"
  by (simp add: fixture_defs options_defs)

text \<open>
  C9 (amended). For every read time \<open>t \<noteq> 0\<close>, whatever the request object and the other
  options, the composed \<^verbatim>\<open>readOptions.readTime\<close> is exactly
  \<^verbatim>\<open>{seconds: floor(t / 1000)}\<close>: the seconds are the floor of the quotient and \<^verbatim>\<open>nanos\<close>
  is not populated.
\<close>

theorem readTime_seconds:
  "t \<noteq> 0 \<Longrightarrow> readTime options = Some t \<Longrightarrow>
   (\<exists>ro. readOptions (getRequestOptions this options) = Some ro \<and>
         ro_readTime ro = Some \<lparr>seconds = Some \<lfloor>real_of_int t / 1000\<rfloor>, nanos = None\<rparr>)"
proof -
  assume t: "t \<noteq> 0" and rt: "readTime options = Some t"
  have fl: "\<lfloor>real_of_int t / 1000\<rfloor> = t div 1000"
    using floor_divide_of_int_eq [of t 1000, where ?'a = real] by simp
  show ?thesis
    using t rt unfolding fl
    by (simp add: getRequestOptions_def Let_def ensure_readOptions_def empty_readOptions_def
        empty_reqOpts_def split: option.splits)
qed

theorem readTime_seconds_witness:
  "(1500::int) \<noteq> 0 \<and>
   readTime (example_options (Some ''strong'') (Some 1500)) = Some 1500 \<and>
   (\<exists>ro. readOptions (getRequestOptions (example_this NOT_TRANSACTION None)
                         (example_options (Some ''strong'') (Some 1500))) = Some ro \<and>
         ro_readTime ro = Some \<lparr>seconds = Some 1, nanos = None\<rparr>)"
  using readTime_seconds [of 1500 "example_options (Some ''strong'') (Some 1500)"
      "example_this NOT_TRANSACTION None"]
  by (simp add: example_options_def)

end
